theory Spec2Isabelle
  imports Complex_Main "HOL-Library.Sublist"
begin

section \<open>The ingress authorizer \<open>scripts/whitelist_ip.sh\<close>\<close>

text \<open>
  The script is a straight-line bash program run under \<open>set -euo pipefail\<close>. Its shell
  variables are the fields of the record \<open>vars\<close>; every external command it runs is a
  field of the record \<open>world\<close>, which gives the exit status of the command and the data
  of its response. The \<open>--query\<close> expressions and the \<open>--output text\<close> rendering of the
  \<open>aws\<close> command line are applied by the model to that data, as the script asks for them.
  A run yields the exit status with the lines echoed by the script itself, the sequence of
  external commands it ran, and the state of the cloud it leaves.
\<close>

subsection \<open>Strings of the shell\<close>

definition NL :: char where
  "NL = CHR 0x0A"

definition TAB :: char where
  "TAB = CHR 0x09"

text \<open>The characters of \<open>IFS\<close> inside one line: space and tab.\<close>

definition is_blank :: "char \<Rightarrow> bool" where
  "is_blank c = (c = CHR '' '' \<or> c = TAB)"

text \<open>The class \<open>[:space:]\<close> of \<open>tr\<close>: space, tab, newline, vertical tab, form feed, return.\<close>

definition is_space :: "char \<Rightarrow> bool" where
  "is_space c = (c = CHR '' '' \<or> c = TAB \<or> c = NL \<or> c = CHR 0x0B \<or> c = CHR 0x0C \<or> c = CHR 0x0D)"

definition is_digit :: "char \<Rightarrow> bool" where
  "is_digit c = (c \<in> set ''0123456789'')"

text \<open>A command substitution \<open>$(...)\<close> drops the newlines at the end of the output.\<close>

definition strip_trailing_newlines :: "string \<Rightarrow> string" where
  "strip_trailing_newlines s = rev (dropWhile (\<lambda>c. c = NL) (rev s))"

definition first_line :: "string \<Rightarrow> string" where
  "first_line s = takeWhile (\<lambda>c. c \<noteq> NL) s"

text \<open>
  Word splitting of one line at blanks; \<open>cur\<close> is the word being read. Empty words are
  not produced.
\<close>

fun split_words :: "string \<Rightarrow> string \<Rightarrow> string list" where
  "split_words cur [] = (if cur = [] then [] else [cur])"
| "split_words cur (c # cs) =
     (if is_blank c then (if cur = [] then split_words [] cs else cur # split_words [] cs)
      else split_words (cur @ [c]) cs)"

text \<open>\<open>read -r -a arr <<<"$text"\<close>: the first line of the text, split into words.\<close>

definition read_array :: "string \<Rightarrow> string list" where
  "read_array text = split_words [] (first_line text)"

text \<open>\<open>awk 'NR==1 {print $1}'\<close>: the first field of the first line, when there is a line.\<close>

definition awk_first_field :: "string \<Rightarrow> string" where
  "awk_first_field inp =
     (if inp = [] then []
      else takeWhile (\<lambda>c. \<not> is_blank c) (dropWhile is_blank (first_line inp)) @ [NL])"

text \<open>\<open>tr -d '[:space:]'\<close>.\<close>

definition tr_delete_space :: "string \<Rightarrow> string" where
  "tr_delete_space s = filter (\<lambda>c. \<not> is_space c) s"

text \<open>
  \<open>find_after sep s\<close> is what follows the first occurrence of \<open>sep\<close> in \<open>s\<close>, so that
  \<open>${url#*://}\<close>, which removes the shortest prefix matching \<open>*://\<close>, is \<open>strip_scheme\<close>.
\<close>

fun find_after :: "string \<Rightarrow> string \<Rightarrow> string option" where
  "find_after sep [] = (if sep = [] then Some [] else None)"
| "find_after sep (c # cs) =
     (if prefix sep (c # cs) then Some (drop (length sep) (c # cs)) else find_after sep cs)"

definition strip_scheme :: "string \<Rightarrow> string" where
  "strip_scheme u = (case find_after ''://'' u of None \<Rightarrow> u | Some r \<Rightarrow> r)"

text \<open>\<open>${hostport%%/*}\<close> and \<open>${hostport%%:*}\<close>: remove the longest suffix that starts with the character.\<close>

definition before_first :: "char \<Rightarrow> string \<Rightarrow> string" where
  "before_first d s = takeWhile (\<lambda>c. c \<noteq> d) s"

text \<open>\<open>${hostport##*:}\<close>: remove the longest prefix that ends with the character.\<close>

definition after_last :: "char \<Rightarrow> string \<Rightarrow> string" where
  "after_last d s = rev (takeWhile (\<lambda>c. c \<noteq> d) (rev s))"

text \<open>Splitting at every occurrence of a character, empty pieces kept.\<close>

fun split_on :: "char \<Rightarrow> string \<Rightarrow> string \<Rightarrow> string list" where
  "split_on d cur [] = [cur]"
| "split_on d cur (c # cs) = (if c = d then cur # split_on d [] cs else split_on d (cur @ [c]) cs)"

text \<open>The regular expression \<open>^([0-9]{1,3}\.){3}[0-9]{1,3}$\<close>.\<close>

definition is_dotted_quad :: "string \<Rightarrow> bool" where
  "is_dotted_quad h =
     (let parts = split_on (CHR ''.'') [] h
      in length parts = 4 \<and>
         list_all (\<lambda>p. 1 \<le> length p \<and> length p \<le> 3 \<and> list_all is_digit p) parts)"

subsection \<open>Text output of the \<open>aws\<close> command line\<close>

text \<open>
  With \<open>--output text\<close> a list of scalars is printed on one line, separated by tabs; an
  empty list prints nothing; a list of lists prints each inner list in turn; the value
  null prints \<open>None\<close>.
\<close>

fun join_tab :: "string list \<Rightarrow> string" where
  "join_tab [] = []"
| "join_tab [x] = x"
| "join_tab (x # y # ys) = x @ [TAB] @ join_tab (y # ys)"

definition format_list :: "string list \<Rightarrow> string" where
  "format_list xs = (if xs = [] then [] else join_tab xs @ [NL])"

definition format_opt_list :: "string list option \<Rightarrow> string" where
  "format_opt_list r = (case r of None \<Rightarrow> ''None'' @ [NL] | Some xs \<Rightarrow> format_list xs)"

definition format_opt_list_list :: "string list list option \<Rightarrow> string" where
  "format_opt_list_list r =
     (case r of None \<Rightarrow> ''None'' @ [NL] | Some xss \<Rightarrow> concat (map format_list xss))"

text \<open>Decimal notation of a number of the response.\<close>

definition digit_char :: "nat \<Rightarrow> char" where
  "digit_char d = ''0123456789'' ! (d mod 10)"

fun show_nat :: "nat \<Rightarrow> string" where
  "show_nat n = (if n < 10 then [digit_char n] else show_nat (n div 10) @ [digit_char (n mod 10)])"

declare show_nat.simps [simp del]

definition show_int :: "int \<Rightarrow> string" where
  "show_int i = (if i < 0 then CHR ''-'' # show_nat (nat (- i)) else show_nat (nat i))"

subsection \<open>Responses of the external commands\<close>

text \<open>
  The shapes of the responses, with the fields that the script's queries read. The groups
  of a network interface are given by their \<open>GroupId\<close>. The ports of a permission are
  absent for a protocol that has none. \<open>securityGroups\<close> is absent when the service has
  no \<open>networkConfiguration.awsvpcConfiguration\<close>.
\<close>

record network_interface =
  NetworkInterfaceId :: string
  Groups :: "string list"

record ip_range =
  CidrIp :: string
  Description :: string

record ip_permission =
  IpProtocol :: string
  FromPort :: "int option"
  ToPort :: "int option"
  IpRanges :: "ip_range list"

record security_group =
  GroupId :: string
  IpPermissions :: "ip_permission list"

record ecs_service =
  serviceArn :: string
  securityGroups :: "string list option"

text \<open>
  Every external command gives its exit status first. The commands of the cloud control
  plane read the state \<open>'s\<close> of the cloud; \<open>authorize-security-group-ingress\<close> alone
  gives a new state. Responses are taken to fit in one page.
\<close>

record 's world =
  getent_hosts :: "string \<Rightarrow> nat \<times> string"
  curl_checkip :: "nat \<times> string"
  aws_configure_get_region :: "nat \<times> string"
  ec2_describe_regions :: "'s \<Rightarrow> nat \<times> string list"
  ec2_describe_network_interfaces :: "'s \<Rightarrow> string \<Rightarrow> string \<Rightarrow> nat \<times> network_interface list"
  ecs_list_clusters :: "'s \<Rightarrow> string \<Rightarrow> nat \<times> string list"
  ecs_list_services :: "'s \<Rightarrow> string \<Rightarrow> string \<Rightarrow> nat \<times> string list"
  ecs_describe_services :: "'s \<Rightarrow> string \<Rightarrow> string \<Rightarrow> string \<Rightarrow> nat \<times> ecs_service list"
  ec2_describe_security_groups :: "'s \<Rightarrow> string \<Rightarrow> string \<Rightarrow> nat \<times> security_group list"
  ec2_authorize_security_group_ingress ::
    "'s \<Rightarrow> string \<Rightarrow> string \<Rightarrow> string \<Rightarrow> string \<Rightarrow> string \<Rightarrow> string \<Rightarrow> nat \<times> 's"

record env =
  AWS_REGION :: "string option"
  AWS_DEFAULT_REGION :: "string option"

text \<open>The external commands a run has executed, in order, with their arguments.\<close>

datatype call =
    GetentHosts string
  | CurlCheckip
  | AwsConfigureGetRegion
  | Ec2DescribeRegions
  | Ec2DescribeNetworkInterfaces string string
  | EcsListClusters string
  | EcsListServices string string
  | EcsDescribeServices string string string
  | Ec2DescribeSecurityGroups string string
  | Ec2AuthorizeSecurityGroupIngress string string string string string string

text \<open>Of these, only \<open>authorize-security-group-ingress\<close> changes the cloud.\<close>

fun is_mutation :: "call \<Rightarrow> bool" where
  "is_mutation (Ec2AuthorizeSecurityGroupIngress r g p pt c d) = True"
| "is_mutation _ = False"

subsection \<open>Exits and sequencing\<close>

text \<open>An exit: the status, and the lines the script has echoed to stdout and to stderr.\<close>

datatype exit = Exit (exit_code: nat) (stdout: "string list") (stderr: "string list")

type_synonym 'a res = "call list \<times> (exit + 'a)"

definition ret :: "'a \<Rightarrow> 'a res" where
  "ret x = ([], Inr x)"

definition exit_with :: "nat \<Rightarrow> string list \<Rightarrow> string list \<Rightarrow> 'a res" where
  "exit_with c out err = ([], Inl (Exit c out err))"

definition and_then :: "'a res \<Rightarrow> ('a \<Rightarrow> 'b res) \<Rightarrow> 'b res" where
  "and_then m f =
     (case m of
        (t, Inl e) \<Rightarrow> (t, Inl e)
      | (t, Inr x) \<Rightarrow> (case f x of (t', r) \<Rightarrow> (t @ t', r)))"

text \<open>
  \<open>var="$(command)"\<close> under \<open>set -e\<close>: a command that fails ends the script with the
  status of the command; otherwise the variable is its output without the final newlines.
\<close>

definition cmd_subst :: "call \<Rightarrow> nat \<times> string \<Rightarrow> string res" where
  "cmd_subst c r =
     ([c], if fst r \<noteq> 0 then Inl (Exit (fst r) [] []) else Inr (strip_trailing_newlines (snd r)))"

text \<open>An \<open>aws\<close> command with \<open>--query q --output text\<close>: nothing is printed when it fails.\<close>

definition aws_text :: "nat \<times> 'a \<Rightarrow> ('a \<Rightarrow> string) \<Rightarrow> nat \<times> string" where
  "aws_text r q = (fst r, if fst r \<noteq> 0 then [] else q (snd r))"

text \<open>
  A pipeline \<open>command | filter\<close> under \<open>pipefail\<close>, where the filter (\<open>awk\<close>, \<open>tr\<close>)
  succeeds: the status is the status of the command.
\<close>

definition pipe :: "nat \<times> string \<Rightarrow> (string \<Rightarrow> string) \<Rightarrow> nat \<times> string" where
  "pipe r f = (fst r, f (snd r))"

subsection \<open>The shell variables and the command line\<close>

record vars =
  ip :: string
  cidr :: string
  target_ip :: string
  url :: string
  port :: string
  protocol :: string
  cluster :: string
  service :: string
  sg_id :: string
  region :: string
  description :: string

definition initial_vars :: vars where
  "initial_vars =
     \<lparr>ip = '''', cidr = '''', target_ip = '''', url = '''', port = '''', protocol = ''tcp'',
      cluster = '''', service = '''', sg_id = '''', region = '''',
      description = ''codex-whitelist''\<rparr>"

definition usage :: "string list" where
  "usage =
     [''Usage: scripts/whitelist_ip.sh [options]'',
      '''',
      ''Options:'',
      ''  --ip <ip>            Public IP to whitelist (defaults to auto-detect).'',
      ''  --cidr <cidr>        CIDR to whitelist (overrides --ip). Example: 1.2.3.4/32'',
      ''  --target-ip <ip>     Public IP of the service to locate its security group.'',
      ''  --url <url>          Service URL (extracts host and port, can locate SG).'',
      ''  --port <port>        Port to allow (if omitted, auto-detects if only one tcp rule exists).'',
      ''  --protocol <proto>   Protocol (default: tcp).'',
      ''  --cluster <arn|name> ECS cluster ARN or name (optional if only one cluster exists).'',
      ''  --service <arn|name> ECS service ARN or name (optional if only one service exists).'',
      ''  --sg <sg-id>         Security group ID (skips ECS discovery).'',
      ''  --region <region>    AWS region (defaults to AWS config or env).'',
      ''  --description <txt>  Rule description (default: codex-whitelist).'',
      ''  -h, --help           Show this help.'',
      '''',
      ''Examples:'',
      ''  scripts/whitelist_ip.sh --port 3000'',
      ''  scripts/whitelist_ip.sh --url http://43.216.215.179:8080/'',
      ''  scripts/whitelist_ip.sh --cidr 203.0.113.10/32 --sg sg-0123456789abcdef0 --port 443'']"

text \<open>
  The \<open>while\<close> loop over the arguments. An option at the end of the line has no value:
  \<open>$2\<close> is unbound, and \<open>set -u\<close> ends the script with status 1.
\<close>

definition takes_value :: "string \<Rightarrow> bool" where
  "takes_value a =
     (a \<in> set [''--ip'', ''--cidr'', ''--target-ip'', ''--url'', ''--port'', ''--protocol'',
               ''--cluster'', ''--service'', ''--sg'', ''--region'', ''--description''])"

definition set_option :: "string \<Rightarrow> string \<Rightarrow> vars \<Rightarrow> vars" where
  "set_option a b v =
     (if a = ''--ip'' then v\<lparr>ip := b\<rparr>
      else if a = ''--cidr'' then v\<lparr>cidr := b\<rparr>
      else if a = ''--target-ip'' then v\<lparr>target_ip := b\<rparr>
      else if a = ''--url'' then v\<lparr>url := b\<rparr>
      else if a = ''--port'' then v\<lparr>port := b\<rparr>
      else if a = ''--protocol'' then v\<lparr>protocol := b\<rparr>
      else if a = ''--cluster'' then v\<lparr>cluster := b\<rparr>
      else if a = ''--service'' then v\<lparr>service := b\<rparr>
      else if a = ''--sg'' then v\<lparr>sg_id := b\<rparr>
      else if a = ''--region'' then v\<lparr>region := b\<rparr>
      else if a = ''--description'' then v\<lparr>description := b\<rparr>
      else v)"

fun parse_args :: "string list \<Rightarrow> vars \<Rightarrow> exit + vars" where
  "parse_args [] v = Inr v"
| "parse_args (a # rest) v =
     (if takes_value a then
        (case rest of
           [] \<Rightarrow> Inl (Exit 1 [] [])
         | b # rest' \<Rightarrow> parse_args rest' (set_option a b v))
      else if a = ''-h'' \<or> a = ''--help'' then Inl (Exit 0 usage [])
      else Inl (Exit 2 ((''Unknown arg: '' @ a) # usage) []))"

subsection \<open>URL parsing (lines 59 to 82)\<close>

definition url_hostport :: "string \<Rightarrow> string" where
  "url_hostport u = before_first (CHR ''/'') (strip_scheme u)"

definition url_host :: "string \<Rightarrow> string" where
  "url_host u =
     (let hostport = url_hostport u
      in if CHR '':'' \<in> set hostport then before_first (CHR '':'') hostport else hostport)"

definition url_port :: "string \<Rightarrow> string" where
  "url_port u =
     (let hostport = url_hostport u
      in if CHR '':'' \<in> set hostport then after_last (CHR '':'') hostport else [])"

definition parse_url :: "'s world \<Rightarrow> vars \<Rightarrow> vars res" where
  "parse_url w v =
     (if url v \<noteq> [] then
        let v1 = (if port v = [] \<and> url_port (url v) \<noteq> [] then v\<lparr>port := url_port (url v)\<rparr> else v)
        in if target_ip v1 = [] \<and> url_host (url v) \<noteq> [] then
             if is_dotted_quad (url_host (url v)) then ret (v1\<lparr>target_ip := url_host (url v)\<rparr>)
             else
               and_then
                 (cmd_subst (GetentHosts (url_host (url v)))
                    (pipe (getent_hosts w (url_host (url v))) awk_first_field))
                 (\<lambda>resolved_ip.
                    ret (if resolved_ip \<noteq> [] then v1\<lparr>target_ip := resolved_ip\<rparr> else v1))
           else ret v1
      else ret v)"

subsection \<open>Region (lines 84 to 117)\<close>

text \<open>
  The \<open>for\<close> loop over the regions: \<open>match_region\<close> is the last region in which the query
  \<open>NetworkInterfaces[].NetworkInterfaceId\<close> printed something, \<open>match_count\<close> their number.
\<close>

fun region_loop ::
  "'s world \<Rightarrow> 's \<Rightarrow> string \<Rightarrow> string list \<Rightarrow> string \<times> nat \<Rightarrow> (string \<times> nat) res"
where
  "region_loop w s tip [] acc = ret acc"
| "region_loop w s tip (r # rs) acc =
     and_then
       (cmd_subst (Ec2DescribeNetworkInterfaces r tip)
          (aws_text (ec2_describe_network_interfaces w s r tip)
             (\<lambda>enis. format_list (map NetworkInterfaceId enis))))
       (\<lambda>eni_text.
          region_loop w s tip rs
            (if eni_text \<noteq> [] \<and> eni_text \<noteq> ''None'' then (r, snd acc + 1) else acc))"

text \<open>\<open>${AWS_REGION:-${AWS_DEFAULT_REGION:-}}\<close>: a variable that is unset or empty is passed over.\<close>

definition env_region :: "env \<Rightarrow> string" where
  "env_region e =
     (case AWS_REGION e of
        Some r \<Rightarrow> if r \<noteq> [] then r else (case AWS_DEFAULT_REGION e of Some d \<Rightarrow> d | None \<Rightarrow> [])
      | None \<Rightarrow> (case AWS_DEFAULT_REGION e of Some d \<Rightarrow> d | None \<Rightarrow> []))"

definition infer_region :: "'s world \<Rightarrow> 's \<Rightarrow> vars \<Rightarrow> vars res" where
  "infer_region w s v =
     (if target_ip v \<noteq> [] then
        and_then
          (cmd_subst Ec2DescribeRegions (aws_text (ec2_describe_regions w s) format_list))
          (\<lambda>regions_text.
             and_then (region_loop w s (target_ip v) (read_array regions_text) ([], 0))
               (\<lambda>m. if snd m = 1 then ret (v\<lparr>region := fst m\<rparr>)
                     else if snd m > 1 then
                       exit_with 2 []
                         [''Public IP '' @ target_ip v @ '' found in multiple regions. Use --region or --sg.'']
                     else ret v))
      else ret v)"

definition resolve_region :: "'s world \<Rightarrow> env \<Rightarrow> 's \<Rightarrow> vars \<Rightarrow> vars res" where
  "resolve_region w e s v =
     and_then
       (if region v = [] then
          and_then (infer_region w s v)
            (\<lambda>v1. let v2 = (if region v1 = [] then v1\<lparr>region := env_region e\<rparr> else v1)
                   in if region v2 = [] then
                        and_then (cmd_subst AwsConfigureGetRegion (aws_configure_get_region w))
                          (\<lambda>r. ret (v2\<lparr>region := r\<rparr>))
                      else ret v2)
        else ret v)
       (\<lambda>v3. if region v3 = [] then
                exit_with 2 []
                  [''Region not set. Use --region, --url, or set AWS_REGION/AWS_DEFAULT_REGION.'']
              else ret v3)"

subsection \<open>The address to authorize (lines 119 to 128)\<close>

definition resolve_cidr :: "'s world \<Rightarrow> vars \<Rightarrow> vars res" where
  "resolve_cidr w v =
     (if cidr v = [] then
        and_then
          (if ip v = [] then
             and_then (cmd_subst CurlCheckip (pipe (curl_checkip w) tr_delete_space))
               (\<lambda>detected. ret (v\<lparr>ip := detected\<rparr>))
           else ret v)
          (\<lambda>v1. if ip v1 = [] then
                   exit_with 2 [] [''Failed to determine IP. Use --ip or --cidr.'']
                 else ret (v1\<lparr>cidr := ip v1 @ ''/32''\<rparr>))
      else ret v)"

subsection \<open>Security group (lines 132 to 188)\<close>

text \<open>The query \<open>NetworkInterfaces[0].Groups[].GroupId\<close>: null when there is no interface.\<close>

definition first_interface_groups :: "network_interface list \<Rightarrow> string list option" where
  "first_interface_groups enis = (case enis of [] \<Rightarrow> None | e # _ \<Rightarrow> Some (Groups e))"

definition locate_sg_by_ip :: "'s world \<Rightarrow> 's \<Rightarrow> vars \<Rightarrow> vars res" where
  "locate_sg_by_ip w s v =
     (if sg_id v = [] \<and> target_ip v \<noteq> [] then
        and_then
          (cmd_subst (Ec2DescribeNetworkInterfaces (region v) (target_ip v))
             (aws_text (ec2_describe_network_interfaces w s (region v) (target_ip v))
                (\<lambda>enis. format_opt_list (first_interface_groups enis))))
          (\<lambda>sg_text.
             if sg_text = [] \<or> sg_text = ''None'' then
               exit_with 2 []
                 [''No security group found for public IP '' @ target_ip v @ ''. Use --sg.'']
             else
               let sgs = read_array sg_text
               in if length sgs \<noteq> 1 then
                    exit_with 2 []
                      [''Multiple security groups found for public IP '' @ target_ip v @ ''. Use --sg.'']
                  else ret (v\<lparr>sg_id := hd sgs\<rparr>))
      else ret v)"

text \<open>
  The query \<open>services[0].networkConfiguration.awsvpcConfiguration.securityGroups[]\<close>:
  null when there is no service or the first one has no such configuration.
\<close>

definition first_service_groups :: "ecs_service list \<Rightarrow> string list option" where
  "first_service_groups svcs = (case svcs of [] \<Rightarrow> None | x # _ \<Rightarrow> securityGroups x)"

definition discover_cluster :: "'s world \<Rightarrow> 's \<Rightarrow> vars \<Rightarrow> vars res" where
  "discover_cluster w s v =
     (if cluster v = [] then
        and_then
          (cmd_subst (EcsListClusters (region v))
             (aws_text (ecs_list_clusters w s (region v)) format_list))
          (\<lambda>clusters_text.
             if clusters_text = [] \<or> clusters_text = ''None'' then
               exit_with 2 [] [''No ECS clusters found. Use --cluster or --sg.'']
             else
               let clusters = read_array clusters_text
               in if length clusters \<noteq> 1 then
                    exit_with 2 [] [''Multiple ECS clusters found. Use --cluster to select one.'']
                  else ret (v\<lparr>cluster := hd clusters\<rparr>))
      else ret v)"

definition discover_service :: "'s world \<Rightarrow> 's \<Rightarrow> vars \<Rightarrow> vars res" where
  "discover_service w s v =
     (if service v = [] then
        and_then
          (cmd_subst (EcsListServices (region v) (cluster v))
             (aws_text (ecs_list_services w s (region v) (cluster v)) format_list))
          (\<lambda>services_text.
             if services_text = [] \<or> services_text = ''None'' then
               exit_with 2 [] [''No ECS services found. Use --service or --sg.'']
             else
               let services = read_array services_text
               in if length services \<noteq> 1 then
                    exit_with 2 [] [''Multiple ECS services found. Use --service to select one.'']
                  else ret (v\<lparr>service := hd services\<rparr>))
      else ret v)"

definition service_sg :: "'s world \<Rightarrow> 's \<Rightarrow> vars \<Rightarrow> vars res" where
  "service_sg w s v =
     and_then
       (cmd_subst (EcsDescribeServices (region v) (cluster v) (service v))
          (aws_text (ecs_describe_services w s (region v) (cluster v) (service v))
             (\<lambda>svcs. format_opt_list (first_service_groups svcs))))
       (\<lambda>sg_text.
          if sg_text = [] \<or> sg_text = ''None'' then
            exit_with 2 [] [''No security group found on ECS service. Use --sg.'']
          else
            let sgs = read_array sg_text
            in if length sgs \<noteq> 1 then
                 exit_with 2 [] [''Multiple security groups found. Use --sg to select one.'']
               else ret (v\<lparr>sg_id := hd sgs\<rparr>))"

definition locate_sg_by_ecs :: "'s world \<Rightarrow> 's \<Rightarrow> vars \<Rightarrow> vars res" where
  "locate_sg_by_ecs w s v =
     (if sg_id v = [] then
        and_then (discover_cluster w s v)
          (\<lambda>v1. and_then (discover_service w s v1) (\<lambda>v2. service_sg w s v2))
      else ret v)"

subsection \<open>Port (lines 190 to 204)\<close>

text \<open>
  The query
  \<open>SecurityGroups[0].IpPermissions[?IpProtocol=='${protocol}' && FromPort==ToPort && length(IpRanges)>`0`].FromPort\<close>:
  null when there is no group; a permission without ports passes the filter and gives no
  value.
\<close>

definition single_port_rule :: "string \<Rightarrow> ip_permission \<Rightarrow> bool" where
  "single_port_rule proto p = (IpProtocol p = proto \<and> FromPort p = ToPort p \<and> 0 < length (IpRanges p))"

definition port_values :: "string \<Rightarrow> ip_permission list \<Rightarrow> int list" where
  "port_values proto perms = List.map_filter FromPort (filter (single_port_rule proto) perms)"

definition ports_query :: "string \<Rightarrow> security_group list \<Rightarrow> string list option" where
  "ports_query proto sgs =
     (case sgs of [] \<Rightarrow> None | g # _ \<Rightarrow> Some (map show_int (port_values proto (IpPermissions g))))"

definition resolve_port :: "'s world \<Rightarrow> 's \<Rightarrow> vars \<Rightarrow> vars res" where
  "resolve_port w s v =
     (if port v = [] then
        and_then
          (cmd_subst (Ec2DescribeSecurityGroups (region v) (sg_id v))
             (aws_text (ec2_describe_security_groups w s (region v) (sg_id v))
                (\<lambda>sgs. format_opt_list (ports_query (protocol v) sgs))))
          (\<lambda>ports_text.
             if ports_text = [] \<or> ports_text = ''None'' then
               exit_with 2 [] [''No matching '' @ protocol v @ '' rules found. Use --port.'']
             else
               let ports = read_array ports_text
               in if length ports \<noteq> 1 then
                    exit_with 2 [] [''Multiple '' @ protocol v @ '' ports found. Use --port.'']
                  else ret (v\<lparr>port := hd ports\<rparr>))
      else ret v)"

subsection \<open>Rule (lines 206 to 218)\<close>

text \<open>
  The comparison \<open>FromPort==`${port}`\<close> of the query. Between the backticks the variable
  is read as a JSON literal: white space around it is dropped; \<open>null\<close> is the absent
  value; a numeral \<open>-?(0|[1-9][0-9]*)\<close> is that integer; a numeral with a fraction or an
  exponent is the double-precision number nearest to its decimal value; every other text is
  a boolean, a string, an array or an object, which no port equals. The variable is taken
  to hold no backtick, so that the literal ends where the script closes it.
\<close>

datatype json = JNull | JInt int | JFloat rat | JOther

definition is_json_space :: "char \<Rightarrow> bool" where
  "is_json_space c = (c = CHR '' '' \<or> c = TAB \<or> c = NL \<or> c = CHR 0x0D)"

definition json_trim :: "string \<Rightarrow> string" where
  "json_trim s = rev (dropWhile is_json_space (rev (dropWhile is_json_space s)))"

definition digits_value :: "string \<Rightarrow> int" where
  "digits_value ds = foldl (\<lambda>a c. 10 * a + (of_char c - 48)) 0 ds"

definition all_digits :: "string \<Rightarrow> bool" where
  "all_digits ds = (ds \<noteq> [] \<and> list_all is_digit ds)"

text \<open>The integer part of a numeral: \<open>0\<close>, or digits that do not start with \<open>0\<close>.\<close>

definition int_part_ok :: "string \<Rightarrow> bool" where
  "int_part_ok ds = (all_digits ds \<and> (ds = ''0'' \<or> hd ds \<noteq> CHR ''0''))"

text \<open>The exponent of a numeral: an optional sign and digits.\<close>

definition exponent :: "string \<Rightarrow> int option" where
  "exponent e =
     (case e of
        [] \<Rightarrow> None
      | c # cs \<Rightarrow>
          if c = CHR ''-'' then (if all_digits cs then Some (- digits_value cs) else None)
          else if c = CHR ''+'' then (if all_digits cs then Some (digits_value cs) else None)
          else if all_digits e then Some (digits_value e) else None)"

text \<open>A text up to the first character with a property, and what follows that character.\<close>

definition split_at :: "(char \<Rightarrow> bool) \<Rightarrow> string \<Rightarrow> string \<times> string option" where
  "split_at P s =
     (takeWhile (\<lambda>c. \<not> P c) s,
      case dropWhile (\<lambda>c. \<not> P c) s of [] \<Rightarrow> None | _ # r \<Rightarrow> Some r)"

definition pow10 :: "int \<Rightarrow> rat" where
  "pow10 e = (if 0 \<le> e then 10 ^ nat e else 1 / 10 ^ nat (- e))"

definition pow2 :: "int \<Rightarrow> rat" where
  "pow2 e = (if 0 \<le> e then 2 ^ nat e else 1 / 2 ^ nat (- e))"

text \<open>
  A numeral \<open>-?(0|[1-9][0-9]*)(\.[0-9]+)?([eE][-+]?[0-9]+)?\<close>: an integer when it has
  neither fraction nor exponent, and its decimal value otherwise.
\<close>

definition json_number :: "string \<Rightarrow> json option" where
  "json_number t =
     (let neg = (t \<noteq> [] \<and> hd t = CHR ''-'');
          body = (if neg then tl t else t);
          mant = fst (split_at (\<lambda>c. c = CHR ''e'' \<or> c = CHR ''E'') body);
          ex = snd (split_at (\<lambda>c. c = CHR ''e'' \<or> c = CHR ''E'') body);
          ip = fst (split_at (\<lambda>c. c = CHR ''.'') mant);
          fr = snd (split_at (\<lambda>c. c = CHR ''.'') mant)
      in if \<not> int_part_ok ip then None
         else if fr = None \<and> ex = None then
           Some (JInt ((if neg then - 1 else 1) * digits_value ip))
         else if (case fr of None \<Rightarrow> True | Some f \<Rightarrow> all_digits f)
                 \<and> (case ex of None \<Rightarrow> True | Some e \<Rightarrow> exponent e \<noteq> None) then
           Some (JFloat
             ((if neg then - 1 else 1)
              * (of_int (digits_value ip)
                 + (case fr of None \<Rightarrow> 0 | Some f \<Rightarrow> of_int (digits_value f) / 10 ^ length f))
              * (case ex of None \<Rightarrow> 1 | Some e \<Rightarrow> pow10 (the (exponent e)))))
         else None)"

definition json_literal :: "string \<Rightarrow> json" where
  "json_literal s =
     (let t = json_trim s
      in if t = ''null'' then JNull
         else case json_number t of Some j \<Rightarrow> j | None \<Rightarrow> JOther)"

text \<open>The exponent \<open>k\<close> with \<open>2 ^ k \<le> a < 2 ^ (k + 1)\<close>, for a positive integer.\<close>

function log2_floor :: "int \<Rightarrow> nat" where
  "log2_floor a = (if a < 2 then 0 else Suc (log2_floor (a div 2)))"
  by pat_completeness auto
termination
  by (relation "measure nat") auto

declare log2_floor.simps [simp del]

text \<open>
  The double-precision number nearest to \<open>x\<close> (ties to the even mantissa) is the integer
  \<open>n\<close>: with \<open>2 ^ k \<le> \<bar>n\<bar> < 2 ^ (k + 1)\<close> the doubles around \<open>n\<close> are \<open>2 ^ (k - 52)\<close> apart,
  and half as far apart below a power of two; \<open>n\<close> itself must be a double.
\<close>

definition float_is :: "rat \<Rightarrow> int \<Rightarrow> bool" where
  "float_is x n =
     (if n = 0 then \<bar>x\<bar> \<le> pow2 (- 1075)
      else
        let a = \<bar>n\<bar>;
            k = log2_floor a;
            y = (if n < 0 then - x else x);
            u = pow2 (int k - 52);
            is_double = (k \<le> 1023 \<and> (k \<le> 52 \<or> 2 ^ (k - 52) dvd a));
            even_mantissa = (k < 52 \<or> even (a div 2 ^ (k - 52)));
            lo = of_int a - (if a = 2 ^ k then u / 4 else u / 2);
            hi = of_int a + u / 2
        in is_double \<and> (if even_mantissa then lo \<le> y \<and> y \<le> hi else lo < y \<and> y < hi))"

definition port_is :: "string \<Rightarrow> int option \<Rightarrow> bool" where
  "port_is pt x =
     (case json_literal pt of
        JNull \<Rightarrow> x = None
      | JInt n \<Rightarrow> x = Some n
      | JFloat q \<Rightarrow> (case x of None \<Rightarrow> False | Some n \<Rightarrow> float_is q n)
      | JOther \<Rightarrow> False)"

definition rule_matches :: "string \<Rightarrow> string \<Rightarrow> ip_permission \<Rightarrow> bool" where
  "rule_matches proto pt p = (IpProtocol p = proto \<and> port_is pt (FromPort p) \<and> port_is pt (ToPort p))"

text \<open>
  The query
  \<open>SecurityGroups[0].IpPermissions[?IpProtocol=='${protocol}' && FromPort==`${port}` && ToPort==`${port}`].IpRanges[?CidrIp=='${cidr}'].CidrIp\<close>:
  for every permission that matches, the list of its ranges that are the CIDR.
\<close>

definition matching_ranges :: "string \<Rightarrow> string \<Rightarrow> string \<Rightarrow> ip_permission list \<Rightarrow> string list list" where
  "matching_ranges proto pt c perms =
     map (\<lambda>p. map CidrIp (filter (\<lambda>r. CidrIp r = c) (IpRanges p))) (filter (rule_matches proto pt) perms)"

definition existing_query :: "string \<Rightarrow> string \<Rightarrow> string \<Rightarrow> security_group list \<Rightarrow> string list list option" where
  "existing_query proto pt c sgs =
     (case sgs of [] \<Rightarrow> None | g # _ \<Rightarrow> Some (matching_ranges proto pt c (IpPermissions g)))"

definition rule_authorizer :: "'s world \<Rightarrow> 's \<Rightarrow> vars \<Rightarrow> exit \<times> call list \<times> 's" where
  "rule_authorizer w s v =
     (case cmd_subst (Ec2DescribeSecurityGroups (region v) (sg_id v))
             (aws_text (ec2_describe_security_groups w s (region v) (sg_id v))
                (\<lambda>sgs. format_opt_list_list (existing_query (protocol v) (port v) (cidr v) sgs))) of
        (t, Inl e) \<Rightarrow> (e, t, s)
      | (t, Inr existing_cidr) \<Rightarrow>
          if existing_cidr \<noteq> [] \<and> existing_cidr \<noteq> ''None'' then
            (Exit 0
               [cidr v @ '' already allowed on '' @ protocol v @ ''/'' @ port v @ '' in '' @ sg_id v @ ''.'']
               [],
             t, s)
          else
            (case ec2_authorize_security_group_ingress w s (region v) (sg_id v) (protocol v)
                    (port v) (cidr v) (description v) of
               (st, s') \<Rightarrow>
                 (if st \<noteq> 0 then Exit st [] []
                  else Exit 0
                         [''Added '' @ cidr v @ '' to '' @ sg_id v @ '' on '' @ protocol v @ ''/'' @ port v
                            @ '' (region '' @ region v @ '').'']
                         [],
                  t @ [Ec2AuthorizeSecurityGroupIngress (region v) (sg_id v) (protocol v) (port v)
                         (cidr v) (description v)],
                  s')))"

subsection \<open>The script\<close>

definition resolve :: "'s world \<Rightarrow> env \<Rightarrow> 's \<Rightarrow> vars \<Rightarrow> vars res" where
  "resolve w e s v =
     and_then (parse_url w v)
       (\<lambda>v1. and_then (resolve_region w e s v1)
          (\<lambda>v2. and_then (resolve_cidr w v2)
             (\<lambda>v3. and_then (locate_sg_by_ip w s v3)
                (\<lambda>v4. and_then (locate_sg_by_ecs w s v4)
                   (\<lambda>v5. resolve_port w s v5)))))"

definition run :: "'s world \<Rightarrow> env \<Rightarrow> 's \<Rightarrow> vars \<Rightarrow> exit \<times> call list \<times> 's" where
  "run w e s v =
     (case resolve w e s v of
        (t, Inl x) \<Rightarrow> (x, t, s)
      | (t, Inr v') \<Rightarrow> (case rule_authorizer w s v' of (x, t', s') \<Rightarrow> (x, t @ t', s')))"

definition whitelist_ip :: "'s world \<Rightarrow> env \<Rightarrow> 's \<Rightarrow> string list \<Rightarrow> exit \<times> call list \<times> 's" where
  "whitelist_ip w e s args =
     (case parse_args args initial_vars of
        Inl x \<Rightarrow> (x, [], s)
      | Inr v \<Rightarrow> run w e s v)"

subsection \<open>A small cloud, for concrete runs\<close>

text \<open>
  The state of this cloud is the list of ingress permissions of its one security group
  \<open>sg-0a1b\<close> in region \<open>ap-southeast-5\<close>, where one network interface has the public
  address 43.216.215.179. Authorizing a rule appends a permission with the one range.
\<close>

definition read_port :: "string \<Rightarrow> int option" where
  "read_port pt =
     (if pt \<noteq> [] \<and> list_all is_digit pt
      then Some (int (foldl (\<lambda>a c. 10 * a + (of_char c - 48)) 0 pt)) else None)"

definition demo_authorize ::
  "ip_permission list \<Rightarrow> string \<Rightarrow> string \<Rightarrow> string \<Rightarrow> string \<Rightarrow> string \<Rightarrow> string
     \<Rightarrow> nat \<times> ip_permission list"
where
  "demo_authorize s r g proto pt c d =
     (if r = ''ap-southeast-5'' \<and> g = ''sg-0a1b'' \<and> read_port pt \<noteq> None then
        (0, s @ [\<lparr>IpProtocol = proto, FromPort = read_port pt, ToPort = read_port pt,
                  IpRanges = [\<lparr>CidrIp = c, Description = d\<rparr>]\<rparr>])
      else (254, s))"

definition demo_world :: "ip_permission list world" where
  "demo_world =
     \<lparr>getent_hosts = (\<lambda>h. if h = ''bot.example.com''
                          then (0, ''43.216.215.179  bot.example.com'' @ [NL]) else (2, [])),
      curl_checkip = (0, ''203.0.113.10'' @ [NL]),
      aws_configure_get_region = (1, []),
      ec2_describe_regions = (\<lambda>s. (0, [''ap-southeast-5'', ''us-east-1''])),
      ec2_describe_network_interfaces =
        (\<lambda>s r a. (0, if r = ''ap-southeast-5'' \<and> a = ''43.216.215.179''
                      then [\<lparr>NetworkInterfaceId = ''eni-01'', Groups = [''sg-0a1b'']\<rparr>] else [])),
      ecs_list_clusters = (\<lambda>s r. (0, [''arn:aws:ecs:ap-southeast-5:1:cluster/bot''])),
      ecs_list_services = (\<lambda>s r c. (0, [''arn:aws:ecs:ap-southeast-5:1:service/bot/core''])),
      ecs_describe_services =
        (\<lambda>s r c x. (0, [\<lparr>serviceArn = x, securityGroups = Some [''sg-0a1b'']\<rparr>])),
      ec2_describe_security_groups =
        (\<lambda>s r g. if r = ''ap-southeast-5'' \<and> g = ''sg-0a1b''
                  then (0, [\<lparr>GroupId = g, IpPermissions = s\<rparr>]) else (254, [])),
      ec2_authorize_security_group_ingress = demo_authorize\<rparr>"

definition demo_env :: env where
  "demo_env = \<lparr>AWS_REGION = None, AWS_DEFAULT_REGION = None\<rparr>"

definition web_rule :: ip_permission where
  "web_rule =
     \<lparr>IpProtocol = ''tcp'', FromPort = Some 8080, ToPort = Some 8080,
      IpRanges = [\<lparr>CidrIp = ''198.51.100.7/32'', Description = ''office''\<rparr>]\<rparr>"

subsection \<open>Well-formed identifiers and addresses\<close>

text \<open>
  An identifier of the cloud (a region name, an ARN, a security-group id) is a non-empty
  string without blanks or newlines, and is not the word \<open>None\<close>.
\<close>

definition ident :: "string \<Rightarrow> bool" where
  "ident x = (x \<noteq> [] \<and> x \<noteq> ''None'' \<and> list_all (\<lambda>c. \<not> is_blank c \<and> c \<noteq> NL) x)"

text \<open>The number of ranges of the permissions that are the rule (protocol, port, CIDR).\<close>

definition rule_count :: "string \<Rightarrow> string \<Rightarrow> string \<Rightarrow> ip_permission list \<Rightarrow> nat" where
  "rule_count proto pt c perms = length (concat (matching_ranges proto pt c perms))"

text \<open>The regions in which the query for the interfaces of an address prints something.\<close>

definition has_interface :: "'s world \<Rightarrow> 's \<Rightarrow> string \<Rightarrow> string \<Rightarrow> bool" where
  "has_interface w s tip r = (snd (ec2_describe_network_interfaces w s r tip) \<noteq> [])"

text \<open>
  The query for the interfaces of an address in a region succeeded, and the interfaces it
  found have well-formed identifiers.
\<close>

definition interfaces_ok :: "'s world \<Rightarrow> 's \<Rightarrow> string \<Rightarrow> string \<Rightarrow> bool" where
  "interfaces_ok w s tip r =
     (fst (ec2_describe_network_interfaces w s r tip) = 0 \<and>
      list_all (\<lambda>e. ident (NetworkInterfaceId e)) (snd (ec2_describe_network_interfaces w s r tip)))"

text \<open>The groups attached to the first interface found, none when no interface is found.\<close>

definition attached_groups :: "network_interface list \<Rightarrow> string list" where
  "attached_groups enis = (case first_interface_groups enis of None \<Rightarrow> [] | Some gs \<Rightarrow> gs)"


text \<open>The same address has an interface in both regions.\<close>

definition two_region_world :: "ip_permission list world" where
  "two_region_world =
     demo_world\<lparr>ec2_describe_network_interfaces :=
       (\<lambda>s r a. (0, [\<lparr>NetworkInterfaceId = ''eni-01'', Groups = [''sg-0a1b'']\<rparr>]))\<rparr>"


definition ssh_rule :: ip_permission where
  "ssh_rule =
     \<lparr>IpProtocol = ''tcp'', FromPort = Some 22, ToPort = Some 22,
      IpRanges = [\<lparr>CidrIp = ''198.51.100.7/32'', Description = ''office''\<rparr>]\<rparr>"


text \<open>A sequence of commands that leaves the cloud as it is.\<close>

definition reads_only :: "call list \<Rightarrow> bool" where
  "reads_only t = list_all (\<lambda>c. \<not> is_mutation c) t"

text \<open>A host that cannot reach the echo-IP service: \<open>curl\<close> prints nothing and exits with status 6.\<close>

definition offline_world :: "ip_permission list world" where
  "offline_world = demo_world\<lparr>curl_checkip := (6, [])\<rparr>"

text \<open>
  A cloud that keeps its rules as the provider does. A rule for all protocols (\<open>-1\<close>) is
  kept without ports; the port of any other rule is the number that the digits denote. A
  rule that is already there is refused, and the command fails with status 254.
\<close>

definition stored_rule :: "string \<Rightarrow> string \<Rightarrow> string \<Rightarrow> string \<Rightarrow> ip_permission" where
  "stored_rule proto pt c d =
     \<lparr>IpProtocol = proto,
      FromPort = (if proto = ''-1'' then None else read_port pt),
      ToPort = (if proto = ''-1'' then None else read_port pt),
      IpRanges = [\<lparr>CidrIp = c, Description = d\<rparr>]\<rparr>"

definition holds_rule :: "ip_permission list \<Rightarrow> ip_permission \<Rightarrow> bool" where
  "holds_rule s r =
     list_ex (\<lambda>p. IpProtocol p = IpProtocol r \<and> FromPort p = FromPort r \<and> ToPort p = ToPort r
                  \<and> list_ex (\<lambda>x. list_ex (\<lambda>y. CidrIp x = CidrIp y) (IpRanges r)) (IpRanges p)) s"

definition strict_authorize ::
  "ip_permission list \<Rightarrow> string \<Rightarrow> string \<Rightarrow> string \<Rightarrow> string \<Rightarrow> string \<Rightarrow> string
     \<Rightarrow> nat \<times> ip_permission list"
where
  "strict_authorize s r g proto pt c d =
     (if r = ''ap-southeast-5'' \<and> g = ''sg-0a1b'' \<and> (proto = ''-1'' \<or> read_port pt \<noteq> None)
         \<and> \<not> holds_rule s (stored_rule proto pt c d)
      then (0, s @ [stored_rule proto pt c d])
      else (254, s))"

definition strict_world :: "ip_permission list world" where
  "strict_world = demo_world\<lparr>ec2_authorize_security_group_ingress := strict_authorize\<rparr>"

definition all_traffic_rule :: ip_permission where
  "all_traffic_rule =
     \<lparr>IpProtocol = ''-1'', FromPort = None, ToPort = None,
      IpRanges = [\<lparr>CidrIp = ''203.0.113.10/32'', Description = ''codex-whitelist''\<rparr>]\<rparr>"

section \<open>Helper lemmas\<close>

subsection \<open>Command substitution and word splitting\<close>

lemma strip_trailing_newlines_snoc [simp]:
  "strip_trailing_newlines (xs @ [NL]) = strip_trailing_newlines xs"
  by (simp add: strip_trailing_newlines_def)

lemma strip_trailing_newlines_Nil [simp]: "strip_trailing_newlines [] = []"
  by (simp add: strip_trailing_newlines_def)

lemma strip_trailing_newlines_id:
  "NL \<notin> set xs \<Longrightarrow> strip_trailing_newlines xs = xs"
proof -
  assume "NL \<notin> set xs"
  then have "NL \<notin> set (rev xs)" by simp
  then have "dropWhile (\<lambda>c. c = NL) (rev xs) = rev xs"
    by (cases "rev xs") auto
  then show ?thesis by (simp add: strip_trailing_newlines_def)
qed

lemma set_strip_trailing_newlines:
  "c \<noteq> NL \<Longrightarrow> c \<in> set (strip_trailing_newlines xs) \<longleftrightarrow> c \<in> set xs"
proof -
  assume c: "c \<noteq> NL"
  have "rev xs = takeWhile (\<lambda>c. c = NL) (rev xs) @ dropWhile (\<lambda>c. c = NL) (rev xs)"
    by simp
  then have "set xs = set (takeWhile (\<lambda>c. c = NL) (rev xs)) \<union> set (dropWhile (\<lambda>c. c = NL) (rev xs))"
    by (metis set_append set_rev)
  moreover have "c \<notin> set (takeWhile (\<lambda>c. c = NL) (rev xs))"
    using c by (auto dest: set_takeWhileD)
  ultimately show ?thesis by (simp add: strip_trailing_newlines_def)
qed

lemma first_line_id: "NL \<notin> set xs \<Longrightarrow> first_line xs = xs"
  by (auto simp: first_line_def takeWhile_eq_all_conv)

lemma split_words_word:
  "list_all (\<lambda>c. \<not> is_blank c) x \<Longrightarrow> split_words cur (x @ rest) = split_words (cur @ x) rest"
  by (induction x arbitrary: cur) simp_all

lemma split_words_join_tab:
  "list_all (\<lambda>x. x \<noteq> [] \<and> list_all (\<lambda>c. \<not> is_blank c) x) xs \<Longrightarrow> split_words [] (join_tab xs) = xs"
proof (induction xs rule: join_tab.induct)
  case 1
  then show ?case by simp
next
  case (2 x)
  then show ?case using split_words_word [of x "[]" "[]"] by simp
next
  case (3 x y ys)
  have "split_words [] (x @ TAB # join_tab (y # ys)) = split_words x (TAB # join_tab (y # ys))"
    using 3 split_words_word [of x "[]"] by simp
  also have "\<dots> = x # split_words [] (join_tab (y # ys))"
    using 3 by (simp add: is_blank_def)
  finally show ?case using 3 by simp
qed

lemma NL_notin_join_tab:
  "list_all (\<lambda>x. NL \<notin> set x) xs \<Longrightarrow> NL \<notin> set (join_tab xs)"
  by (induction xs rule: join_tab.induct) (auto simp: NL_def TAB_def)

lemma ident_word: "ident x \<Longrightarrow> x \<noteq> [] \<and> list_all (\<lambda>c. \<not> is_blank c) x \<and> NL \<notin> set x"
  by (auto simp: ident_def list_all_iff)

lemma idents_words:
  "list_all ident xs \<Longrightarrow>
     list_all (\<lambda>x. x \<noteq> [] \<and> list_all (\<lambda>c. \<not> is_blank c) x) xs \<and> list_all (\<lambda>x. NL \<notin> set x) xs"
  using ident_word by (auto simp: list_all_iff)

lemma strip_format_list:
  "list_all ident xs \<Longrightarrow> strip_trailing_newlines (format_list xs) = join_tab xs"
  using idents_words [of xs] NL_notin_join_tab [of xs]
  by (simp add: format_list_def strip_trailing_newlines_id)

lemma read_array_join_tab:
  "list_all ident xs \<Longrightarrow> read_array (join_tab xs) = xs"
  using idents_words [of xs] NL_notin_join_tab [of xs]
  by (simp add: read_array_def first_line_id split_words_join_tab)

lemma join_tab_empty_iff: "list_all ident xs \<Longrightarrow> join_tab xs = [] \<longleftrightarrow> xs = []"
  using read_array_join_tab [of xs] by (auto simp: read_array_def first_line_def)

lemma join_tab_not_None: "list_all ident xs \<Longrightarrow> join_tab xs \<noteq> ''None''"
proof
  assume a: "list_all ident xs" and b: "join_tab xs = ''None''"
  have "read_array ''None'' = [''None'']"
    by (simp add: read_array_def first_line_def NL_def is_blank_def TAB_def)
  then have "xs = [''None'']" using read_array_join_tab [OF a] b by simp
  then show False using a by (simp add: ident_def)
qed

subsection \<open>Sequencing\<close>

lemma and_then_Inr [simp]: "and_then (t, Inr x) f = (t @ fst (f x), snd (f x))"
  by (simp add: and_then_def split: prod.splits)

lemma and_then_Inl [simp]: "and_then (t, Inl x) f = (t, Inl x)"
  by (simp add: and_then_def)

lemma and_then_ret [simp]: "and_then (ret x) f = f x"
  by (simp add: ret_def)

lemma and_then_exit_with [simp]: "and_then (exit_with c out err) f = exit_with c out err"
  by (simp add: exit_with_def)

lemma cmd_subst_ok:
  "fst r = 0 \<Longrightarrow> cmd_subst c r = ([c], Inr (strip_trailing_newlines (snd r)))"
  by (simp add: cmd_subst_def)

lemma cmd_subst_failed:
  "fst r \<noteq> 0 \<Longrightarrow> cmd_subst c r = ([c], Inl (Exit (fst r) [] []))"
  by (simp add: cmd_subst_def)

subsection \<open>What the script reads from a printed list\<close>

lemma printed_list_empty:
  "strip_trailing_newlines (format_list []) = []"
  by (simp add: format_list_def)

lemma printed_list:
  assumes "list_all ident xs" and "xs \<noteq> []"
  shows "strip_trailing_newlines (format_list xs) \<noteq> []"
    and "strip_trailing_newlines (format_list xs) \<noteq> ''None''"
    and "read_array (strip_trailing_newlines (format_list xs)) = xs"
  using assms
  by (simp_all add: strip_format_list join_tab_empty_iff join_tab_not_None read_array_join_tab)

lemma printed_null: "strip_trailing_newlines (format_opt_list None) = ''None''"
  by (simp add: format_opt_list_def strip_trailing_newlines_def NL_def)

subsection \<open>The address to authorize\<close>

lemma strip_tr_delete_space [simp]:
  "strip_trailing_newlines (tr_delete_space x) = tr_delete_space x"
  by (rule strip_trailing_newlines_id) (simp add: tr_delete_space_def is_space_def)

lemma resolve_cidr_explicit: "cidr v \<noteq> [] \<Longrightarrow> resolve_cidr w v = ([], Inr v)"
  by (simp add: resolve_cidr_def ret_def)

lemma resolve_cidr_ip:
  "cidr v = [] \<Longrightarrow> ip v \<noteq> [] \<Longrightarrow> resolve_cidr w v = ([], Inr (v\<lparr>cidr := ip v @ ''/32''\<rparr>))"
  by (simp add: resolve_cidr_def ret_def)

lemma resolve_cidr_detect:
  assumes "cidr v = []" and "ip v = []" and "fst (curl_checkip w) = 0"
  shows "resolve_cidr w v =
           ([CurlCheckip],
            if tr_delete_space (snd (curl_checkip w)) = []
            then Inl (Exit 2 [] [''Failed to determine IP. Use --ip or --cidr.''])
            else Inr (v\<lparr>ip := tr_delete_space (snd (curl_checkip w)),
                        cidr := tr_delete_space (snd (curl_checkip w)) @ ''/32''\<rparr>))"
  using assms
  by (simp add: resolve_cidr_def cmd_subst_ok pipe_def ret_def exit_with_def)

lemma resolve_cidr_detect_failed:
  assumes "cidr v = []" and "ip v = []" and "fst (curl_checkip w) \<noteq> 0"
  shows "resolve_cidr w v = ([CurlCheckip], Inl (Exit (fst (curl_checkip w)) [] []))"
  using assms
  by (simp add: resolve_cidr_def cmd_subst_failed pipe_def)

text \<open>The address to authorize, when the echo-IP service is not asked or answers.\<close>

lemma resolve_cidr_cases:
  "(cidr v \<noteq> [] \<longrightarrow> resolve_cidr w v = ([], Inr v)) \<and>
   (cidr v = [] \<and> ip v \<noteq> [] \<longrightarrow> resolve_cidr w v = ([], Inr (v\<lparr>cidr := ip v @ ''/32''\<rparr>))) \<and>
   (cidr v = [] \<and> ip v = [] \<and> fst (curl_checkip w) = 0
      \<and> tr_delete_space (snd (curl_checkip w)) \<noteq> [] \<longrightarrow>
    resolve_cidr w v =
      ([CurlCheckip],
       Inr (v\<lparr>ip := tr_delete_space (snd (curl_checkip w)),
              cidr := tr_delete_space (snd (curl_checkip w)) @ ''/32''\<rparr>))) \<and>
   (cidr v = [] \<and> ip v = [] \<and> fst (curl_checkip w) = 0
      \<and> tr_delete_space (snd (curl_checkip w)) = [] \<longrightarrow>
    resolve_cidr w v =
      ([CurlCheckip], Inl (Exit 2 [] [''Failed to determine IP. Use --ip or --cidr.''])))"
  by (simp add: resolve_cidr_explicit resolve_cidr_ip resolve_cidr_detect)

subsection \<open>URL parsing\<close>

lemma takeWhile_until: "d \<notin> set h \<Longrightarrow> takeWhile (\<lambda>c. c \<noteq> d) (h @ d # p) = h"
  by (induction h) auto


lemma find_after_scheme:
  "CHR '':'' \<notin> set sch \<Longrightarrow> find_after ''://'' (sch @ ''://'' @ rest) = Some rest"
  by (induction sch) auto

lemma url_hostport_of:
  assumes "CHR '':'' \<notin> set sch" and "CHR ''/'' \<notin> set hp"
  shows "url_hostport (sch @ ''://'' @ hp @ CHR ''/'' # path) = hp"
proof -
  have "strip_scheme (sch @ ''://'' @ hp @ CHR ''/'' # path) = hp @ CHR ''/'' # path"
    using find_after_scheme [OF assms(1), of "hp @ CHR ''/'' # path"]
    by (simp add: strip_scheme_def)
  moreover have "takeWhile (\<lambda>c. c \<noteq> CHR ''/'') (hp @ CHR ''/'' # path) = hp"
    using assms(2) by (rule takeWhile_until)
  ultimately show ?thesis by (simp add: url_hostport_def before_first_def)
qed

lemma after_last_of:
  "d \<notin> set p \<Longrightarrow> after_last d (h @ d # p) = p"
  using takeWhile_until [of d "rev p" "rev h"] by (simp add: after_last_def)

lemma before_first_of:
  "d \<notin> set h \<Longrightarrow> before_first d (h @ d # p) = h"
  by (simp add: before_first_def takeWhile_until)

lemma url_host_port_of:
  assumes "CHR '':'' \<notin> set sch" and "CHR ''/'' \<notin> set h" and "CHR '':'' \<notin> set h"
    and "CHR ''/'' \<notin> set p" and "CHR '':'' \<notin> set p"
  shows "url_host (sch @ ''://'' @ h @ CHR '':'' # p @ CHR ''/'' # path) = h"
    and "url_port (sch @ ''://'' @ h @ CHR '':'' # p @ CHR ''/'' # path) = p"
proof -
  have "CHR ''/'' \<notin> set (h @ CHR '':'' # p)" using assms by simp
  from url_hostport_of [OF assms(1) this, of path]
  have hp: "url_hostport (sch @ ''://'' @ h @ CHR '':'' # p @ CHR ''/'' # path) = h @ CHR '':'' # p"
    by simp
  show "url_host (sch @ ''://'' @ h @ CHR '':'' # p @ CHR ''/'' # path) = h"
    unfolding url_host_def hp using assms(3) by (simp add: before_first_of)
  show "url_port (sch @ ''://'' @ h @ CHR '':'' # p @ CHR ''/'' # path) = p"
    unfolding url_port_def hp using assms(5) by (simp add: after_last_of)
qed




lemma parse_url_dotted_quad:
  assumes "url v \<noteq> []" and "target_ip v = []" and "is_dotted_quad (url_host (url v))"
  shows "parse_url w v =
           ([], Inr (v\<lparr>port := (if port v = [] then url_port (url v) else port v),
                       target_ip := url_host (url v)\<rparr>))"
proof -
  have "url_host (url v) \<noteq> []"
    using assms(3) by (auto simp: is_dotted_quad_def)
  then show ?thesis using assms by (simp add: parse_url_def ret_def Let_def)
qed


lemma parse_url_target_given:
  assumes "target_ip v \<noteq> []"
  shows "parse_url w v =
           ([], Inr (v\<lparr>port := (if url v \<noteq> [] \<and> port v = [] then url_port (url v) else port v)\<rparr>))"
  using assms by (simp add: parse_url_def ret_def Let_def)

lemma example_url_host: "url_host ''http://43.216.215.179:8080/'' = ''43.216.215.179''"
  using url_host_port_of(1) [of "''http''" "''43.216.215.179''" "''8080''" "[]"] by simp

lemma example_url_port: "url_port ''http://43.216.215.179:8080/'' = ''8080''"
  using url_host_port_of(2) [of "''http''" "''43.216.215.179''" "''8080''" "[]"] by simp

lemma example_dotted_quad: "is_dotted_quad ''43.216.215.179''"
  by (simp add: is_dotted_quad_def is_digit_def)

lemma example_parse_url:
  "parse_url w (initial_vars\<lparr>url := ''http://43.216.215.179:8080/''\<rparr>)
     = ([], Inr (initial_vars\<lparr>url := ''http://43.216.215.179:8080/'', port := ''8080'',
                   target_ip := ''43.216.215.179''\<rparr>))"
  using parse_url_dotted_quad [of "initial_vars\<lparr>url := ''http://43.216.215.179:8080/''\<rparr>" w]
  by (simp add: example_url_host example_url_port example_dotted_quad initial_vars_def)



text \<open>
  Claim C10. A target address given with \<open>--target-ip\<close> is not overwritten by the URL:
  URL parsing then runs no lookup and changes at most the port, so the target address that
  the later steps read is the one given, whatever the host of the URL.
\<close>

theorem explicit_target_ip_kept:
  "target_ip v \<noteq> [] \<Longrightarrow>
     \<exists>v'. parse_url w v = ([], Inr v') \<and> target_ip v' = target_ip v \<and> v' = v\<lparr>port := port v'\<rparr>"
  by (simp add: parse_url_target_given)

theorem explicit_target_ip_kept_witness:
  "\<exists>v'. parse_url demo_world
           (initial_vars\<lparr>target_ip := ''43.216.215.179'', url := ''http://198.51.100.7:9000/''\<rparr>)
         = ([], Inr v') \<and> target_ip v' = ''43.216.215.179''"
proof -
  have "target_ip (initial_vars\<lparr>target_ip := ''43.216.215.179'', url := ''http://198.51.100.7:9000/''\<rparr>) \<noteq> []"
    by simp
  from explicit_target_ip_kept [OF this, of demo_world] show ?thesis by auto
qed

subsection \<open>Region\<close>

lemma interfaces_text:
  assumes "interfaces_ok w s tip r"
  shows "cmd_subst (Ec2DescribeNetworkInterfaces r tip)
           (aws_text (ec2_describe_network_interfaces w s r tip)
              (\<lambda>enis. format_list (map NetworkInterfaceId enis)))
         = ([Ec2DescribeNetworkInterfaces r tip],
            Inr (strip_trailing_newlines
                   (format_list (map NetworkInterfaceId (snd (ec2_describe_network_interfaces w s r tip))))))"
    and "(strip_trailing_newlines
            (format_list (map NetworkInterfaceId (snd (ec2_describe_network_interfaces w s r tip)))) \<noteq> []
          \<and> strip_trailing_newlines
            (format_list (map NetworkInterfaceId (snd (ec2_describe_network_interfaces w s r tip)))) \<noteq> ''None'')
         \<longleftrightarrow> has_interface w s tip r"
proof -
  let ?enis = "snd (ec2_describe_network_interfaces w s r tip)"
  have ok: "fst (ec2_describe_network_interfaces w s r tip) = 0"
    and ids: "list_all ident (map NetworkInterfaceId ?enis)"
    using assms by (simp_all add: interfaces_ok_def list_all_iff)
  show "cmd_subst (Ec2DescribeNetworkInterfaces r tip)
           (aws_text (ec2_describe_network_interfaces w s r tip)
              (\<lambda>enis. format_list (map NetworkInterfaceId enis)))
         = ([Ec2DescribeNetworkInterfaces r tip],
            Inr (strip_trailing_newlines (format_list (map NetworkInterfaceId ?enis))))"
    using ok by (simp add: cmd_subst_def aws_text_def)
  show "(strip_trailing_newlines (format_list (map NetworkInterfaceId ?enis)) \<noteq> []
          \<and> strip_trailing_newlines (format_list (map NetworkInterfaceId ?enis)) \<noteq> ''None'')
         \<longleftrightarrow> has_interface w s tip r"
  proof (cases "?enis = []")
    case True
    then show ?thesis by (simp add: has_interface_def printed_list_empty)
  next
    case False
    then have "map NetworkInterfaceId ?enis \<noteq> []" by simp
    from printed_list(1,2) [OF ids this] False show ?thesis
      by (simp add: has_interface_def)
  qed
qed

lemma region_loop_scan:
  assumes "list_all (interfaces_ok w s tip) rs"
  shows "region_loop w s tip rs acc =
           (map (\<lambda>r. Ec2DescribeNetworkInterfaces r tip) rs,
            Inr (if filter (has_interface w s tip) rs = [] then acc
                 else (last (filter (has_interface w s tip) rs),
                       snd acc + length (filter (has_interface w s tip) rs))))"
  using assms
proof (induction rs arbitrary: acc)
  case Nil
  then show ?case by (simp add: ret_def)
next
  case (Cons r rs)
  then have r: "interfaces_ok w s tip r" and rs: "list_all (interfaces_ok w s tip) rs"
    by simp_all
  note step = interfaces_text [OF r]
  have cond:
    "(strip_trailing_newlines
        (format_list (map NetworkInterfaceId (snd (ec2_describe_network_interfaces w s r tip)))) \<noteq> []
      \<and> strip_trailing_newlines
        (format_list (map NetworkInterfaceId (snd (ec2_describe_network_interfaces w s r tip)))) \<noteq> ''None'')
     = has_interface w s tip r"
    using step(2) by simp
  show ?case
  proof (cases "has_interface w s tip r")
    case True
    then show ?thesis
      using Cons.IH [OF rs, of "(r, snd acc + 1)"]
      by (simp add: step(1) cond)
  next
    case False
    then show ?thesis
      using Cons.IH [OF rs, of acc]
      by (simp add: step(1) cond)
  qed
qed

lemma regions_read:
  assumes "ec2_describe_regions w s = (0, rs)" and "list_all ident rs"
  shows "cmd_subst Ec2DescribeRegions (aws_text (ec2_describe_regions w s) format_list)
           = ([Ec2DescribeRegions], Inr (strip_trailing_newlines (format_list rs)))"
    and "read_array (strip_trailing_newlines (format_list rs)) = rs"
proof -
  show "cmd_subst Ec2DescribeRegions (aws_text (ec2_describe_regions w s) format_list)
           = ([Ec2DescribeRegions], Inr (strip_trailing_newlines (format_list rs)))"
    using assms(1) by (simp add: cmd_subst_def aws_text_def)
  show "read_array (strip_trailing_newlines (format_list rs)) = rs"
  proof (cases "rs = []")
    case True
    then show ?thesis by (simp add: format_list_def read_array_def first_line_def)
  next
    case False
    from printed_list(3) [OF assms(2) this] show ?thesis .
  qed
qed

lemma infer_region_scan:
  assumes "target_ip v \<noteq> []" and "ec2_describe_regions w s = (0, rs)" and "list_all ident rs"
    and "list_all (interfaces_ok w s (target_ip v)) rs"
  shows "infer_region w s v =
           (Ec2DescribeRegions # map (\<lambda>r. Ec2DescribeNetworkInterfaces r (target_ip v)) rs,
            case filter (has_interface w s (target_ip v)) rs of
              [] \<Rightarrow> Inr v
            | [r] \<Rightarrow> Inr (v\<lparr>region := r\<rparr>)
            | _ \<Rightarrow> Inl (Exit 2 []
                       [''Public IP '' @ target_ip v @ '' found in multiple regions. Use --region or --sg.'']))"
proof -
  note rd = regions_read [OF assms(2,3)]
  note scan = region_loop_scan [OF assms(4), of "([], 0)"]
  show ?thesis
  proof (cases "filter (has_interface w s (target_ip v)) rs")
    case Nil
    then show ?thesis
      using assms(1) by (simp add: infer_region_def rd scan ret_def)
  next
    case (Cons m ms)
    then show ?thesis
      using assms(1)
      by (cases ms) (simp_all add: infer_region_def rd scan ret_def exit_with_def)
  qed
qed

lemma infer_region_no_target: "target_ip v = [] \<Longrightarrow> infer_region w s v = ([], Inr v)"
  by (simp add: infer_region_def ret_def)

text \<open>The order of the sources of the region, after the inference from the target address.\<close>

lemma resolve_region_explicit: "region v \<noteq> [] \<Longrightarrow> resolve_region w e s v = ([], Inr v)"
  by (simp add: resolve_region_def ret_def)

lemma resolve_region_inferred:
  "region v = [] \<Longrightarrow> infer_region w s v = (t, Inr v1) \<Longrightarrow> region v1 \<noteq> [] \<Longrightarrow>
     resolve_region w e s v = (t, Inr v1)"
  by (simp add: resolve_region_def ret_def Let_def)

lemma resolve_region_ambiguous:
  "region v = [] \<Longrightarrow> infer_region w s v = (t, Inl x) \<Longrightarrow> resolve_region w e s v = (t, Inl x)"
  by (simp add: resolve_region_def)

lemma resolve_region_env:
  "region v = [] \<Longrightarrow> infer_region w s v = (t, Inr v) \<Longrightarrow> env_region e \<noteq> [] \<Longrightarrow>
     resolve_region w e s v = (t, Inr (v\<lparr>region := env_region e\<rparr>))"
  by (simp add: resolve_region_def ret_def Let_def)

lemma resolve_region_configured:
  assumes "region v = []" and "infer_region w s v = (t, Inr v)" and "env_region e = []"
    and "fst (aws_configure_get_region w) = 0"
  shows "resolve_region w e s v =
           (t @ [AwsConfigureGetRegion],
            if strip_trailing_newlines (snd (aws_configure_get_region w)) = []
            then Inl (Exit 2 []
                   [''Region not set. Use --region, --url, or set AWS_REGION/AWS_DEFAULT_REGION.''])
            else Inr (v\<lparr>region := strip_trailing_newlines (snd (aws_configure_get_region w))\<rparr>))"
  using assms by (simp add: resolve_region_def ret_def Let_def cmd_subst_ok exit_with_def)

lemma resolve_region_configure_failed:
  assumes "region v = []" and "infer_region w s v = (t, Inr v)" and "env_region e = []"
    and "fst (aws_configure_get_region w) \<noteq> 0"
  shows "resolve_region w e s v =
           (t @ [AwsConfigureGetRegion], Inl (Exit (fst (aws_configure_get_region w)) [] []))"
  using assms by (simp add: resolve_region_def ret_def Let_def cmd_subst_failed)

lemma env_region_order:
  "env_region e =
     (if AWS_REGION e \<noteq> None \<and> AWS_REGION e \<noteq> Some [] then the (AWS_REGION e)
      else if AWS_DEFAULT_REGION e \<noteq> None then the (AWS_DEFAULT_REGION e) else [])"
  by (simp add: env_region_def split: option.splits)

lemma parse_url_region: "snd (parse_url w v) = Inr v1 \<Longrightarrow> region v1 = region v"
  by (auto simp: parse_url_def ret_def Let_def cmd_subst_def split: if_splits)

lemma run_resolve_exit: "resolve w e s v = (t, Inl x) \<Longrightarrow> run w e s v = (x, t, s)"
  by (simp add: run_def)

text \<open>
  Claim C5. Without \<open>--region\<close>, when the target address has an interface in more than one
  region, the run exits with status 2 and the message that asks for \<open>--region\<close> or
  \<open>--sg\<close>; the commands it has run are the URL lookup, if any, and the scan of the regions:
  no later step and no mutation, and the cloud is as it was.
\<close>

theorem ambiguous_region_fails:
  assumes "region v = []"
    and "parse_url w v = (t0, Inr v1)" and "target_ip v1 \<noteq> []"
    and "ec2_describe_regions w s = (0, rs)" and "list_all ident rs"
    and "list_all (interfaces_ok w s (target_ip v1)) rs"
    and "1 < length (filter (has_interface w s (target_ip v1)) rs)"
  shows "run w e s v =
           (Exit 2 []
              [''Public IP '' @ target_ip v1 @ '' found in multiple regions. Use --region or --sg.''],
            t0 @ Ec2DescribeRegions # map (\<lambda>r. Ec2DescribeNetworkInterfaces r (target_ip v1)) rs,
            s)"
proof -
  have r1: "region v1 = []"
    using parse_url_region [of w v v1] assms(1,2) by simp
  obtain m m' ms where ms: "filter (has_interface w s (target_ip v1)) rs = m # m' # ms"
    using assms(7) by (cases "filter (has_interface w s (target_ip v1)) rs" rule: join_tab.cases) auto
  have "infer_region w s v1 =
          (Ec2DescribeRegions # map (\<lambda>r. Ec2DescribeNetworkInterfaces r (target_ip v1)) rs,
           Inl (Exit 2 []
                  [''Public IP '' @ target_ip v1 @ '' found in multiple regions. Use --region or --sg.'']))"
    using infer_region_scan [OF assms(3,4,5,6)] ms by simp
  from resolve_region_ambiguous [OF r1 this]
  have "resolve w e s v =
          (t0 @ Ec2DescribeRegions # map (\<lambda>r. Ec2DescribeNetworkInterfaces r (target_ip v1)) rs,
           Inl (Exit 2 []
                  [''Public IP '' @ target_ip v1 @ '' found in multiple regions. Use --region or --sg.'']))"
    by (simp add: resolve_def assms(2))
  then show ?thesis by (rule run_resolve_exit)
qed

theorem ambiguous_region_fails_witness:
  "run two_region_world demo_env [web_rule] (initial_vars\<lparr>url := ''http://43.216.215.179:8080/''\<rparr>) =
     (Exit 2 [] [''Public IP 43.216.215.179 found in multiple regions. Use --region or --sg.''],
      [Ec2DescribeRegions,
       Ec2DescribeNetworkInterfaces ''ap-southeast-5'' ''43.216.215.179'',
       Ec2DescribeNetworkInterfaces ''us-east-1'' ''43.216.215.179''],
      [web_rule])"
proof -
  let ?v = "initial_vars\<lparr>url := ''http://43.216.215.179:8080/''\<rparr>"
  let ?v1 = "initial_vars\<lparr>url := ''http://43.216.215.179:8080/'', port := ''8080'',
                           target_ip := ''43.216.215.179''\<rparr>"
  have a: "region ?v = []" by (simp add: initial_vars_def)
  have b: "parse_url two_region_world ?v = ([], Inr ?v1)"
    by (rule example_parse_url)
  have c: "target_ip ?v1 \<noteq> []" by simp
  have d: "ec2_describe_regions two_region_world [web_rule] = (0, [''ap-southeast-5'', ''us-east-1''])"
    by (simp add: two_region_world_def demo_world_def)
  have e: "list_all ident [''ap-southeast-5'', ''us-east-1'']"
    by (simp add: ident_def is_blank_def NL_def TAB_def)
  have f: "list_all (interfaces_ok two_region_world [web_rule] (target_ip ?v1))
             [''ap-southeast-5'', ''us-east-1'']"
    by (simp add: interfaces_ok_def two_region_world_def ident_def is_blank_def NL_def TAB_def)
  have g: "1 < length (filter (has_interface two_region_world [web_rule] (target_ip ?v1))
                         [''ap-southeast-5'', ''us-east-1''])"
    by (simp add: has_interface_def two_region_world_def)
  from ambiguous_region_fails [OF a b c d e f g, of demo_env] show ?thesis by simp
qed

lemma demo_run_no_region:
  "whitelist_ip demo_world demo_env [web_rule] [''--port'', ''8080'']
     = (Exit 1 [] [], [AwsConfigureGetRegion], [web_rule])"
proof -
  let ?v = "initial_vars\<lparr>port := ''8080''\<rparr>"
  have args: "parse_args [''--port'', ''8080''] initial_vars = Inr ?v"
    by (simp add: takes_value_def set_option_def)
  have u: "parse_url demo_world ?v = ([], Inr ?v)"
    by (simp add: parse_url_def initial_vars_def ret_def)
  have i: "infer_region demo_world [web_rule] ?v = ([], Inr ?v)"
    by (rule infer_region_no_target) (simp add: initial_vars_def)
  have st: "fst (aws_configure_get_region demo_world) = 1"
    by (simp add: demo_world_def)
  have "resolve_region demo_world demo_env [web_rule] ?v
          = ([] @ [AwsConfigureGetRegion], Inl (Exit (fst (aws_configure_get_region demo_world)) [] []))"
    by (rule resolve_region_configure_failed [OF _ i])
       (simp_all add: initial_vars_def env_region_def demo_env_def st)
  then have rr: "resolve_region demo_world demo_env [web_rule] ?v
                   = ([AwsConfigureGetRegion], Inl (Exit 1 [] []))"
    by (simp only: st append_Nil)
  have "resolve demo_world demo_env [web_rule] ?v = ([AwsConfigureGetRegion], Inl (Exit 1 [] []))"
    by (simp add: resolve_def u rr)
  from run_resolve_exit [OF this] args show ?thesis
    by (simp add: whitelist_ip_def)
qed

text \<open>
  Claim C4. With no region from the flag, the target address or the environment, the
  region is read with \<open>aws configure get region\<close>. When no region is configured that command
  prints nothing and fails with status 1, and the assignment of line 110 ends the script
  under \<open>set -e\<close>: the run exits with status 1 and no message, not with status 2 and
  \<open>Region not set\<close>. The lemmas \<open>resolve_region_explicit\<close>, \<open>infer_region_scan\<close>,
  \<open>resolve_region_inferred\<close>, \<open>resolve_region_env\<close>, \<open>env_region_order\<close> and
  \<open>resolve_region_configured\<close> give the order of the sources.
\<close>

theorem region_not_configured_exit:
  "whitelist_ip demo_world demo_env [web_rule] [''--port'', ''8080'']
     = (Exit 1 [] [], [AwsConfigureGetRegion], [web_rule])"
  by (rule demo_run_no_region)

lemma offline_run:
  "whitelist_ip offline_world demo_env [web_rule]
     [''--region'', ''ap-southeast-5'', ''--sg'', ''sg-0a1b'', ''--port'', ''8080'']
   = (Exit 6 [] [], [CurlCheckip], [web_rule])"
proof -
  let ?v = "initial_vars\<lparr>region := ''ap-southeast-5'', sg_id := ''sg-0a1b'', port := ''8080''\<rparr>"
  have args: "parse_args [''--region'', ''ap-southeast-5'', ''--sg'', ''sg-0a1b'', ''--port'', ''8080'']
                initial_vars = Inr ?v"
    by (simp add: takes_value_def set_option_def)
  have u: "parse_url offline_world ?v = ([], Inr ?v)"
    by (simp add: parse_url_def initial_vars_def ret_def)
  have r: "resolve_region offline_world demo_env [web_rule] ?v = ([], Inr ?v)"
    by (rule resolve_region_explicit) simp
  have st: "fst (curl_checkip offline_world) = 6"
    by (simp add: offline_world_def)
  have "resolve_cidr offline_world ?v = ([CurlCheckip], Inl (Exit (fst (curl_checkip offline_world)) [] []))"
    by (rule resolve_cidr_detect_failed) (simp_all add: initial_vars_def st)
  then have c: "resolve_cidr offline_world ?v = ([CurlCheckip], Inl (Exit 6 [] []))"
    by (simp only: st)
  have "resolve offline_world demo_env [web_rule] ?v = ([CurlCheckip], Inl (Exit 6 [] []))"
    by (simp add: resolve_def u r c)
  from run_resolve_exit [OF this] args show ?thesis
    by (simp add: whitelist_ip_def)
qed

text \<open>
  Claim C2. With neither \<open>--cidr\<close> nor \<open>--ip\<close> the address is read from the echo-IP
  service with \<open>curl\<close>. When \<open>curl\<close> cannot reach the service it prints nothing and
  fails, here with status 6, and the assignment of line 121 ends the script under
  \<open>set -e\<close> and \<open>pipefail\<close>: the run exits with status 6 and no message, not with status
  2 and \<open>Failed to determine IP\<close>. The lemma \<open>resolve_cidr_cases\<close> gives the other cases:
  \<open>--cidr\<close> is kept as it is, \<open>--ip\<close> and an address that the service prints get
  \<open>/32\<close> appended, and an answer that is empty gives status 2.
\<close>

theorem detection_failed_exit:
  "whitelist_ip offline_world demo_env [web_rule]
     [''--region'', ''ap-southeast-5'', ''--sg'', ''sg-0a1b'', ''--port'', ''8080'']
   = (Exit 6 [] [], [CurlCheckip], [web_rule])"
  by (rule offline_run)

subsection \<open>Security group\<close>

text \<open>
  Claim C6. With no \<open>--sg\<close> and a target address, the locator asks for the interfaces with
  that public address and takes the groups attached to the first one: with none it exits
  with status 2 and \<open>No security group found\<close>, with more than one with status 2 and a
  message that asks for \<open>--sg\<close>, and with exactly one that group is the security group.
\<close>

theorem locate_sg_by_ip_cases:
  assumes "sg_id v = []" and "target_ip v \<noteq> []"
    and "ec2_describe_network_interfaces w s (region v) (target_ip v) = (0, enis)"
    and "list_all ident (attached_groups enis)"
  shows "locate_sg_by_ip w s v =
           ([Ec2DescribeNetworkInterfaces (region v) (target_ip v)],
            case attached_groups enis of
              [] \<Rightarrow> Inl (Exit 2 []
                       [''No security group found for public IP '' @ target_ip v @ ''. Use --sg.''])
            | [g] \<Rightarrow> Inr (v\<lparr>sg_id := g\<rparr>)
            | _ \<Rightarrow> Inl (Exit 2 []
                      [''Multiple security groups found for public IP '' @ target_ip v @ ''. Use --sg.'']))"
proof (cases enis)
  case Nil
  then show ?thesis
    using assms(1,2,3)
    by (simp add: locate_sg_by_ip_def cmd_subst_def aws_text_def first_interface_groups_def
        attached_groups_def printed_null exit_with_def)
next
  case (Cons e es)
  then have gs: "attached_groups enis = Groups e" and fg: "first_interface_groups enis = Some (Groups e)"
    by (simp_all add: attached_groups_def first_interface_groups_def)
  have ids: "list_all ident (Groups e)" using assms(4) gs by simp
  show ?thesis
  proof (cases "Groups e")
    case Nil
    then show ?thesis
      using assms(1,2,3) gs fg
      by (simp add: locate_sg_by_ip_def cmd_subst_def aws_text_def format_opt_list_def
          printed_list_empty exit_with_def)
  next
    case (Cons g gs')
    then have ne: "Groups e \<noteq> []" by simp
    note pl = printed_list [OF ids ne]
    show ?thesis
      using assms(1,2,3) gs fg Cons pl
      by (cases gs')
         (simp_all add: locate_sg_by_ip_def cmd_subst_def aws_text_def format_opt_list_def
            exit_with_def ret_def Let_def)
  qed
qed

theorem locate_sg_by_ip_cases_witness:
  "locate_sg_by_ip demo_world [web_rule]
     (initial_vars\<lparr>target_ip := ''43.216.215.179'', region := ''ap-southeast-5''\<rparr>)
   = ([Ec2DescribeNetworkInterfaces ''ap-southeast-5'' ''43.216.215.179''],
      Inr (initial_vars\<lparr>target_ip := ''43.216.215.179'', region := ''ap-southeast-5'',
                        sg_id := ''sg-0a1b''\<rparr>)) \<and>
   locate_sg_by_ip
     (demo_world\<lparr>ec2_describe_network_interfaces :=
        (\<lambda>s r a. (0, [\<lparr>NetworkInterfaceId = ''eni-01'', Groups = [''sg-0a1b'', ''sg-0c2d'']\<rparr>]))\<rparr>)
     [web_rule] (initial_vars\<lparr>target_ip := ''43.216.215.179'', region := ''ap-southeast-5''\<rparr>)
   = ([Ec2DescribeNetworkInterfaces ''ap-southeast-5'' ''43.216.215.179''],
      Inl (Exit 2 [] [''Multiple security groups found for public IP 43.216.215.179. Use --sg.''])) \<and>
   locate_sg_by_ip demo_world [web_rule]
     (initial_vars\<lparr>target_ip := ''198.51.100.99'', region := ''ap-southeast-5''\<rparr>)
   = ([Ec2DescribeNetworkInterfaces ''ap-southeast-5'' ''198.51.100.99''],
      Inl (Exit 2 [] [''No security group found for public IP 198.51.100.99. Use --sg.'']))"
proof -
  let ?v = "initial_vars\<lparr>target_ip := ''43.216.215.179'', region := ''ap-southeast-5''\<rparr>"
  let ?u = "initial_vars\<lparr>target_ip := ''198.51.100.99'', region := ''ap-southeast-5''\<rparr>"
  let ?w2 = "demo_world\<lparr>ec2_describe_network_interfaces :=
        (\<lambda>s r a. (0, [\<lparr>NetworkInterfaceId = ''eni-01'', Groups = [''sg-0a1b'', ''sg-0c2d'']\<rparr>]))\<rparr>"
  have v: "sg_id ?v = []" "target_ip ?v \<noteq> []" "sg_id ?u = []" "target_ip ?u \<noteq> []"
    by (simp_all add: initial_vars_def)
  have one: "ec2_describe_network_interfaces demo_world [web_rule] (region ?v) (target_ip ?v)
               = (0, [\<lparr>NetworkInterfaceId = ''eni-01'', Groups = [''sg-0a1b'']\<rparr>])"
    by (simp add: demo_world_def)
  have two: "ec2_describe_network_interfaces ?w2 [web_rule] (region ?v) (target_ip ?v)
               = (0, [\<lparr>NetworkInterfaceId = ''eni-01'', Groups = [''sg-0a1b'', ''sg-0c2d'']\<rparr>])"
    by simp
  have none: "ec2_describe_network_interfaces demo_world [web_rule] (region ?u) (target_ip ?u) = (0, [])"
    by (simp add: demo_world_def)
  have ids: "list_all ident (attached_groups [\<lparr>NetworkInterfaceId = ''eni-01'', Groups = [''sg-0a1b'']\<rparr>])"
    "list_all ident (attached_groups [\<lparr>NetworkInterfaceId = ''eni-01'', Groups = [''sg-0a1b'', ''sg-0c2d'']\<rparr>])"
    "list_all ident (attached_groups [])"
    by (simp_all add: attached_groups_def first_interface_groups_def ident_def is_blank_def NL_def TAB_def)
  show ?thesis
    using locate_sg_by_ip_cases [OF v(1,2) one ids(1)]
      locate_sg_by_ip_cases [OF v(1,2) two ids(2)]
      locate_sg_by_ip_cases [OF v(3,4) none ids(3)]
    by (simp add: attached_groups_def first_interface_groups_def)
qed






subsection \<open>Port\<close>






lemma resolve_port_no_group:
  assumes "port v = []" and "ec2_describe_security_groups w s (region v) (sg_id v) = (0, [])"
  shows "resolve_port w s v =
           ([Ec2DescribeSecurityGroups (region v) (sg_id v)],
            Inl (Exit 2 [] [''No matching '' @ protocol v @ '' rules found. Use --port.'']))"
  using assms
  by (simp add: resolve_port_def cmd_subst_def aws_text_def ports_query_def printed_null exit_with_def)

lemma resolve_port_explicit: "port v \<noteq> [] \<Longrightarrow> resolve_port w s v = ([], Inr v)"
  by (simp add: resolve_port_def ret_def)











subsection \<open>Rule\<close>

lemma set_join_tab: "x \<in> set xs \<Longrightarrow> set x \<subseteq> set (join_tab xs)"
  by (induction xs rule: join_tab.induct) auto

lemma format_lists_empty:
  "concat xss = [] \<Longrightarrow> concat (map format_list xss) = []"
  by (induction xss) (auto simp: format_list_def)

lemma format_lists_member:
  assumes "xs \<in> set xss" and "x \<in> set xs" and "a \<in> set x"
  shows "a \<in> set (concat (map format_list xss))"
proof -
  have "xs \<noteq> []" using assms(2) by auto
  then have "a \<in> set (format_list xs)"
    using set_join_tab [OF assms(2)] assms(3) by (auto simp: format_list_def)
  then show ?thesis using assms(1) by auto
qed

lemma matching_ranges_are_cidr:
  "xs \<in> set (matching_ranges proto pt c perms) \<Longrightarrow> x \<in> set xs \<Longrightarrow> x = c"
  by (auto simp: matching_ranges_def)

text \<open>What the script reads from the query for the rule.\<close>

lemma existing_absent:
  assumes "rule_count proto pt c perms = 0"
  shows "strip_trailing_newlines (concat (map format_list (matching_ranges proto pt c perms))) = []"
  using assms by (simp add: rule_count_def format_lists_empty)

lemma existing_present:
  assumes "0 < rule_count proto pt c perms" and "CHR ''/'' \<in> set c"
  shows "strip_trailing_newlines (concat (map format_list (matching_ranges proto pt c perms))) \<noteq> []"
    and "strip_trailing_newlines (concat (map format_list (matching_ranges proto pt c perms))) \<noteq> ''None''"
proof -
  let ?t = "concat (map format_list (matching_ranges proto pt c perms))"
  from assms(1) have "concat (matching_ranges proto pt c perms) \<noteq> []"
    by (simp add: rule_count_def)
  then obtain x where "x \<in> set (concat (matching_ranges proto pt c perms))"
    by (cases "concat (matching_ranges proto pt c perms)") auto
  then obtain xs where xs: "xs \<in> set (matching_ranges proto pt c perms)" "x \<in> set xs"
    by auto
  then have "x = c" by (rule matching_ranges_are_cidr)
  with xs assms(2) have "CHR ''/'' \<in> set ?t"
    using format_lists_member [of xs "matching_ranges proto pt c perms" x "CHR ''/''"] by simp
  then have sl: "CHR ''/'' \<in> set (strip_trailing_newlines ?t)"
    by (simp add: set_strip_trailing_newlines NL_def)
  from sl show "strip_trailing_newlines ?t \<noteq> []" by auto
  from sl show "strip_trailing_newlines ?t \<noteq> ''None''" by auto
qed

lemma rule_authorizer_present:
  assumes "CHR ''/'' \<in> set (cidr v)"
    and "ec2_describe_security_groups w s (region v) (sg_id v) = (0, g # gs)"
    and "0 < rule_count (protocol v) (port v) (cidr v) (IpPermissions g)"
  shows "rule_authorizer w s v =
           (Exit 0
              [cidr v @ '' already allowed on '' @ protocol v @ ''/'' @ port v @ '' in '' @ sg_id v @ ''.'']
              [],
            [Ec2DescribeSecurityGroups (region v) (sg_id v)], s)"
  using assms(2) existing_present [OF assms(3,1)]
  by (simp add: rule_authorizer_def cmd_subst_def aws_text_def existing_query_def
      format_opt_list_list_def)

lemma rule_authorizer_absent:
  assumes "ec2_describe_security_groups w s (region v) (sg_id v) = (0, g # gs)"
    and "rule_count (protocol v) (port v) (cidr v) (IpPermissions g) = 0"
    and "ec2_authorize_security_group_ingress w s (region v) (sg_id v) (protocol v) (port v)
           (cidr v) (description v) = (st, s')"
  shows "rule_authorizer w s v =
           (if st \<noteq> 0 then Exit st [] []
            else Exit 0
                   [''Added '' @ cidr v @ '' to '' @ sg_id v @ '' on '' @ protocol v @ ''/'' @ port v
                      @ '' (region '' @ region v @ '').'']
                   [],
            [Ec2DescribeSecurityGroups (region v) (sg_id v),
             Ec2AuthorizeSecurityGroupIngress (region v) (sg_id v) (protocol v) (port v) (cidr v)
               (description v)],
            s')"
  using assms(1,3) existing_absent [OF assms(2)]
  by (simp add: rule_authorizer_def cmd_subst_def aws_text_def existing_query_def
      format_opt_list_list_def)

lemma rule_authorizer_describe_failed:
  assumes "fst (ec2_describe_security_groups w s (region v) (sg_id v)) \<noteq> 0"
  shows "rule_authorizer w s v =
           (Exit (fst (ec2_describe_security_groups w s (region v) (sg_id v))) [] [],
            [Ec2DescribeSecurityGroups (region v) (sg_id v)], s)"
  using assms by (simp add: rule_authorizer_def cmd_subst_def aws_text_def)

text \<open>A run with the region, the CIDR, the security group and the port given is the rule authorizer.\<close>

lemma explicit_run:
  assumes "parse_args args initial_vars = Inr v" and "url v = []" and "region v \<noteq> []"
    and "cidr v \<noteq> []" and "sg_id v \<noteq> []" and "port v \<noteq> []"
  shows "whitelist_ip w e s args = rule_authorizer w s v"
proof -
  have "resolve w e s v = ([], Inr v)"
    using assms(2-6)
    by (simp add: resolve_def parse_url_def resolve_region_def resolve_cidr_def
        locate_sg_by_ip_def locate_sg_by_ecs_def resolve_port_def ret_def)
  then show ?thesis
    using assms(1) by (cases "rule_authorizer w s v") (simp add: whitelist_ip_def run_def)
qed

lemma json_literal_minus_one: "json_literal ''-1'' = JInt (- 1)"
  by (simp add: json_literal_def json_trim_def is_json_space_def json_number_def split_at_def
      int_part_ok_def all_digits_def is_digit_def digits_value_def TAB_def NL_def)

lemma json_literal_8080: "json_literal ''8080'' = JInt 8080"
  by (simp add: json_literal_def json_trim_def is_json_space_def json_number_def split_at_def
      int_part_ok_def all_digits_def is_digit_def digits_value_def TAB_def NL_def)

lemma json_literal_08080: "json_literal ''08080'' = JOther"
  by (simp add: json_literal_def json_trim_def is_json_space_def json_number_def split_at_def
      int_part_ok_def all_digits_def is_digit_def digits_value_def TAB_def NL_def)

lemma read_port_08080: "read_port ''08080'' = Some 8080"
  by (simp add: read_port_def is_digit_def)

lemma all_traffic_args:
  "parse_args [''--cidr'', ''203.0.113.10/32'', ''--sg'', ''sg-0a1b'', ''--region'', ''ap-southeast-5'',
               ''--protocol'', ''-1'', ''--port'', ''-1''] initial_vars
   = Inr (initial_vars\<lparr>cidr := ''203.0.113.10/32'', sg_id := ''sg-0a1b'', region := ''ap-southeast-5'',
                         protocol := ''-1'', port := ''-1''\<rparr>)"
  by (simp add: takes_value_def set_option_def)

lemma strict_describe:
  "ec2_describe_security_groups strict_world s ''ap-southeast-5'' ''sg-0a1b''
     = (0, \<lparr>GroupId = ''sg-0a1b'', IpPermissions = s\<rparr> # [])"
  by (simp add: strict_world_def demo_world_def)

lemma all_traffic_first_run:
  "whitelist_ip strict_world demo_env []
     [''--cidr'', ''203.0.113.10/32'', ''--sg'', ''sg-0a1b'', ''--region'', ''ap-southeast-5'',
      ''--protocol'', ''-1'', ''--port'', ''-1'']
   = (Exit 0 [''Added 203.0.113.10/32 to sg-0a1b on -1/-1 (region ap-southeast-5).''] [],
      [Ec2DescribeSecurityGroups ''ap-southeast-5'' ''sg-0a1b'',
       Ec2AuthorizeSecurityGroupIngress ''ap-southeast-5'' ''sg-0a1b'' ''-1'' ''-1''
         ''203.0.113.10/32'' ''codex-whitelist''],
      [all_traffic_rule])"
proof -
  let ?v = "initial_vars\<lparr>cidr := ''203.0.113.10/32'', sg_id := ''sg-0a1b'', region := ''ap-southeast-5'',
                          protocol := ''-1'', port := ''-1''\<rparr>"
  have f: "region ?v = ''ap-southeast-5''" "sg_id ?v = ''sg-0a1b''" "protocol ?v = ''-1''"
    "port ?v = ''-1''" "cidr ?v = ''203.0.113.10/32''" "description ?v = ''codex-whitelist''"
    "url ?v = []"
    by (simp_all add: initial_vars_def)
  have count: "rule_count ''-1'' ''-1'' ''203.0.113.10/32'' [] = 0"
    by (simp add: rule_count_def matching_ranges_def)
  have auth: "ec2_authorize_security_group_ingress strict_world [] ''ap-southeast-5'' ''sg-0a1b''
                ''-1'' ''-1'' ''203.0.113.10/32'' ''codex-whitelist'' = (0, [all_traffic_rule])"
    by (simp add: strict_world_def strict_authorize_def stored_rule_def holds_rule_def
        all_traffic_rule_def)
  have "rule_authorizer strict_world [] ?v
     = (Exit 0 [''Added 203.0.113.10/32 to sg-0a1b on -1/-1 (region ap-southeast-5).''] [],
        [Ec2DescribeSecurityGroups ''ap-southeast-5'' ''sg-0a1b'',
         Ec2AuthorizeSecurityGroupIngress ''ap-southeast-5'' ''sg-0a1b'' ''-1'' ''-1''
           ''203.0.113.10/32'' ''codex-whitelist''],
        [all_traffic_rule])"
    using rule_authorizer_absent [of strict_world "[]" ?v _ "[]" 0 "[all_traffic_rule]"]
      strict_describe [of "[]"] auth count
    by (simp add: f)
  moreover have "whitelist_ip strict_world demo_env []
     [''--cidr'', ''203.0.113.10/32'', ''--sg'', ''sg-0a1b'', ''--region'', ''ap-southeast-5'',
      ''--protocol'', ''-1'', ''--port'', ''-1''] = rule_authorizer strict_world [] ?v"
    by (rule explicit_run [OF all_traffic_args]) (simp_all add: f)
  ultimately show ?thesis by simp
qed

lemma all_traffic_second_run:
  "whitelist_ip strict_world demo_env [all_traffic_rule]
     [''--cidr'', ''203.0.113.10/32'', ''--sg'', ''sg-0a1b'', ''--region'', ''ap-southeast-5'',
      ''--protocol'', ''-1'', ''--port'', ''-1'']
   = (Exit 254 [] [],
      [Ec2DescribeSecurityGroups ''ap-southeast-5'' ''sg-0a1b'',
       Ec2AuthorizeSecurityGroupIngress ''ap-southeast-5'' ''sg-0a1b'' ''-1'' ''-1''
         ''203.0.113.10/32'' ''codex-whitelist''],
      [all_traffic_rule])"
proof -
  let ?v = "initial_vars\<lparr>cidr := ''203.0.113.10/32'', sg_id := ''sg-0a1b'', region := ''ap-southeast-5'',
                          protocol := ''-1'', port := ''-1''\<rparr>"
  have f: "region ?v = ''ap-southeast-5''" "sg_id ?v = ''sg-0a1b''" "protocol ?v = ''-1''"
    "port ?v = ''-1''" "cidr ?v = ''203.0.113.10/32''" "description ?v = ''codex-whitelist''"
    "url ?v = []"
    by (simp_all add: initial_vars_def)
  have count: "rule_count ''-1'' ''-1'' ''203.0.113.10/32'' [all_traffic_rule] = 0"
    by (simp add: rule_count_def matching_ranges_def rule_matches_def port_is_def
        json_literal_minus_one all_traffic_rule_def)
  have auth: "ec2_authorize_security_group_ingress strict_world [all_traffic_rule] ''ap-southeast-5''
                ''sg-0a1b'' ''-1'' ''-1'' ''203.0.113.10/32'' ''codex-whitelist''
              = (254, [all_traffic_rule])"
    by (simp add: strict_world_def strict_authorize_def stored_rule_def holds_rule_def
        all_traffic_rule_def)
  have "rule_authorizer strict_world [all_traffic_rule] ?v
     = (Exit 254 [] [],
        [Ec2DescribeSecurityGroups ''ap-southeast-5'' ''sg-0a1b'',
         Ec2AuthorizeSecurityGroupIngress ''ap-southeast-5'' ''sg-0a1b'' ''-1'' ''-1''
           ''203.0.113.10/32'' ''codex-whitelist''],
        [all_traffic_rule])"
    using rule_authorizer_absent [of strict_world "[all_traffic_rule]" ?v _ "[]" 254 "[all_traffic_rule]"]
      strict_describe [of "[all_traffic_rule]"] auth count
    by (simp add: f)
  moreover have "whitelist_ip strict_world demo_env [all_traffic_rule]
     [''--cidr'', ''203.0.113.10/32'', ''--sg'', ''sg-0a1b'', ''--region'', ''ap-southeast-5'',
      ''--protocol'', ''-1'', ''--port'', ''-1''] = rule_authorizer strict_world [all_traffic_rule] ?v"
    by (rule explicit_run [OF all_traffic_args]) (simp_all add: f)
  ultimately show ?thesis by simp
qed

text \<open>
  The same with a port written with a leading zero: the cloud keeps the rule with the port
  8080, the literal \<open>08080\<close> of the query is not a number, and the second run authorizes
  the rule again.
\<close>

lemma leading_zero_second_run:
  "rule_authorizer strict_world [stored_rule ''tcp'' ''08080'' ''203.0.113.10/32'' ''codex-whitelist'']
     (initial_vars\<lparr>cidr := ''203.0.113.10/32'', sg_id := ''sg-0a1b'', region := ''ap-southeast-5'',
                    port := ''08080''\<rparr>)
   = (Exit 254 [] [],
      [Ec2DescribeSecurityGroups ''ap-southeast-5'' ''sg-0a1b'',
       Ec2AuthorizeSecurityGroupIngress ''ap-southeast-5'' ''sg-0a1b'' ''tcp'' ''08080''
         ''203.0.113.10/32'' ''codex-whitelist''],
      [stored_rule ''tcp'' ''08080'' ''203.0.113.10/32'' ''codex-whitelist''])"
proof -
  let ?v = "initial_vars\<lparr>cidr := ''203.0.113.10/32'', sg_id := ''sg-0a1b'', region := ''ap-southeast-5'',
                          port := ''08080''\<rparr>"
  let ?s = "[stored_rule ''tcp'' ''08080'' ''203.0.113.10/32'' ''codex-whitelist'']"
  have f: "region ?v = ''ap-southeast-5''" "sg_id ?v = ''sg-0a1b''" "protocol ?v = ''tcp''"
    "port ?v = ''08080''" "cidr ?v = ''203.0.113.10/32''" "description ?v = ''codex-whitelist''"
    by (simp_all add: initial_vars_def)
  have count: "rule_count ''tcp'' ''08080'' ''203.0.113.10/32'' ?s = 0"
    by (simp add: rule_count_def matching_ranges_def rule_matches_def port_is_def
        json_literal_08080 stored_rule_def)
  have auth: "ec2_authorize_security_group_ingress strict_world ?s ''ap-southeast-5''
                ''sg-0a1b'' ''tcp'' ''08080'' ''203.0.113.10/32'' ''codex-whitelist'' = (254, ?s)"
    by (simp add: strict_world_def strict_authorize_def stored_rule_def holds_rule_def
        read_port_08080)
  show ?thesis
    using rule_authorizer_absent [of strict_world ?s ?v _ "[]" 254 ?s]
      strict_describe [of ?s] auth count
    by (simp add: f)
qed

text \<open>
  Claim C1. The rule authorizer finds an existing rule with a query that compares the ports
  of a permission with the port given, and authorizes the rule when the query finds
  nothing. The cloud keeps a rule for all protocols without ports, so the query never finds
  it: with \<open>--protocol -1 --port -1\<close> a first run adds the rule and exits with status 0, and
  a second run with the same values does not print \<open>already allowed\<close>; it authorizes the
  rule again, the cloud refuses the duplicate, and the run exits with the status of that
  command. The second run is not a no-op. When the query does find the rule, the run prints
  \<open>already allowed\<close>, exits with status 0 and runs nothing else: lemma
  \<open>rule_authorizer_present\<close>.
\<close>

theorem second_run_not_noop:
  "whitelist_ip strict_world demo_env []
     [''--cidr'', ''203.0.113.10/32'', ''--sg'', ''sg-0a1b'', ''--region'', ''ap-southeast-5'',
      ''--protocol'', ''-1'', ''--port'', ''-1'']
   = (Exit 0 [''Added 203.0.113.10/32 to sg-0a1b on -1/-1 (region ap-southeast-5).''] [],
      [Ec2DescribeSecurityGroups ''ap-southeast-5'' ''sg-0a1b'',
       Ec2AuthorizeSecurityGroupIngress ''ap-southeast-5'' ''sg-0a1b'' ''-1'' ''-1''
         ''203.0.113.10/32'' ''codex-whitelist''],
      [all_traffic_rule]) \<and>
   whitelist_ip strict_world demo_env [all_traffic_rule]
     [''--cidr'', ''203.0.113.10/32'', ''--sg'', ''sg-0a1b'', ''--region'', ''ap-southeast-5'',
      ''--protocol'', ''-1'', ''--port'', ''-1'']
   = (Exit 254 [] [],
      [Ec2DescribeSecurityGroups ''ap-southeast-5'' ''sg-0a1b'',
       Ec2AuthorizeSecurityGroupIngress ''ap-southeast-5'' ''sg-0a1b'' ''-1'' ''-1''
         ''203.0.113.10/32'' ''codex-whitelist''],
      [all_traffic_rule])"
  using all_traffic_first_run all_traffic_second_run by (rule conjI)

subsection \<open>The commands of a run\<close>

lemma reads_only_ret: "reads_only (fst (ret x))"
  by (simp add: ret_def reads_only_def)

lemma reads_only_exit_with: "reads_only (fst (exit_with c out err))"
  by (simp add: exit_with_def reads_only_def)

lemma reads_only_cmd_subst: "\<not> is_mutation c \<Longrightarrow> reads_only (fst (cmd_subst c r))"
  by (simp add: cmd_subst_def reads_only_def)

lemma reads_only_and_then:
  "reads_only (fst m) \<Longrightarrow> (\<And>x. reads_only (fst (f x))) \<Longrightarrow> reads_only (fst (and_then m f))"
  by (cases m; cases "snd m") (auto simp: reads_only_def)

lemmas reads_only_intros =
  reads_only_and_then reads_only_ret reads_only_exit_with reads_only_cmd_subst

lemma reads_only_if:
  "(b \<Longrightarrow> reads_only (fst m)) \<Longrightarrow> (\<not> b \<Longrightarrow> reads_only (fst n)) \<Longrightarrow>
     reads_only (fst (if b then m else n))"
  by simp

lemma reads_only_parse_url: "reads_only (fst (parse_url w v))"
  unfolding parse_url_def Let_def
  by (intro reads_only_if reads_only_intros) simp

lemma reads_only_region_loop: "reads_only (fst (region_loop w s tip rs acc))"
proof (induction rs arbitrary: acc)
  case Nil
  then show ?case by (simp add: reads_only_ret)
next
  case (Cons r rs)
  show ?case
    unfolding region_loop.simps
    by (intro reads_only_intros Cons.IH) simp
qed

lemma reads_only_infer_region: "reads_only (fst (infer_region w s v))"
  unfolding infer_region_def
  by (intro reads_only_if reads_only_intros reads_only_region_loop) simp

lemma reads_only_resolve_region: "reads_only (fst (resolve_region w e s v))"
  unfolding resolve_region_def Let_def
  by (intro reads_only_if reads_only_intros reads_only_infer_region) simp

lemma reads_only_resolve_cidr: "reads_only (fst (resolve_cidr w v))"
  unfolding resolve_cidr_def
  by (intro reads_only_if reads_only_intros) simp

lemma reads_only_locate_sg_by_ip: "reads_only (fst (locate_sg_by_ip w s v))"
  unfolding locate_sg_by_ip_def Let_def
  by (intro reads_only_if reads_only_intros) simp

lemma reads_only_discover_cluster: "reads_only (fst (discover_cluster w s v))"
  unfolding discover_cluster_def Let_def
  by (intro reads_only_if reads_only_intros) simp

lemma reads_only_discover_service: "reads_only (fst (discover_service w s v))"
  unfolding discover_service_def Let_def
  by (intro reads_only_if reads_only_intros) simp

lemma reads_only_service_sg: "reads_only (fst (service_sg w s v))"
  unfolding service_sg_def Let_def
  by (intro reads_only_if reads_only_intros) simp

lemma reads_only_locate_sg_by_ecs: "reads_only (fst (locate_sg_by_ecs w s v))"
  unfolding locate_sg_by_ecs_def
  by (intro reads_only_if reads_only_intros reads_only_discover_cluster
      reads_only_discover_service reads_only_service_sg)

lemma reads_only_resolve_port: "reads_only (fst (resolve_port w s v))"
  unfolding resolve_port_def Let_def
  by (intro reads_only_if reads_only_intros) simp

lemma reads_only_resolve: "reads_only (fst (resolve w e s v))"
  unfolding resolve_def
  by (intro reads_only_intros reads_only_parse_url reads_only_resolve_region
      reads_only_resolve_cidr reads_only_locate_sg_by_ip reads_only_locate_sg_by_ecs
      reads_only_resolve_port)

text \<open>The rule authorizer: the query, and then at most the one authorization.\<close>

lemma rule_authorizer_calls:
  assumes "rule_authorizer w s v = (x, t, s')"
  shows "(t = [Ec2DescribeSecurityGroups (region v) (sg_id v)] \<and> s' = s) \<or>
         (t = [Ec2DescribeSecurityGroups (region v) (sg_id v),
               Ec2AuthorizeSecurityGroupIngress (region v) (sg_id v) (protocol v) (port v)
                 (cidr v) (description v)]
          \<and> s' = snd (ec2_authorize_security_group_ingress w s (region v) (sg_id v) (protocol v)
                        (port v) (cidr v) (description v))
          \<and> exit_code x = fst (ec2_authorize_security_group_ingress w s (region v) (sg_id v)
                        (protocol v) (port v) (cidr v) (description v)))"
  using assms
  by (auto simp: rule_authorizer_def cmd_subst_def split: if_splits prod.splits)

lemma run_calls:
  assumes "run w e s v = (x, t, s')"
  shows "(reads_only t \<and> s' = s) \<or>
         (\<exists>t0 r g p pt c d.
            t = t0 @ [Ec2AuthorizeSecurityGroupIngress r g p pt c d] \<and> reads_only t0
            \<and> s' = snd (ec2_authorize_security_group_ingress w s r g p pt c d)
            \<and> exit_code x = fst (ec2_authorize_security_group_ingress w s r g p pt c d))"
proof -
  obtain t0 res where r: "resolve w e s v = (t0, res)" by (cases "resolve w e s v")
  have ro: "reads_only t0" using reads_only_resolve [of w e s v] r by simp
  show ?thesis
  proof (cases res)
    case (Inl y)
    with r assms ro show ?thesis by (simp add: run_def)
  next
    case (Inr v')
    obtain x1 t1 s1 where ra: "rule_authorizer w s v' = (x1, t1, s1)"
      by (cases "rule_authorizer w s v'")
    from assms r Inr ra have eq: "x = x1" "t = t0 @ t1" "s' = s1"
      by (simp_all add: run_def)
    from rule_authorizer_calls [OF ra] show ?thesis
    proof
      assume "t1 = [Ec2DescribeSecurityGroups (region v') (sg_id v')] \<and> s1 = s"
      with eq ro show ?thesis by (simp add: reads_only_def)
    next
      assume a: "t1 = [Ec2DescribeSecurityGroups (region v') (sg_id v'),
               Ec2AuthorizeSecurityGroupIngress (region v') (sg_id v') (protocol v') (port v')
                 (cidr v') (description v')]
          \<and> s1 = snd (ec2_authorize_security_group_ingress w s (region v') (sg_id v') (protocol v')
                        (port v') (cidr v') (description v'))
          \<and> exit_code x1 = fst (ec2_authorize_security_group_ingress w s (region v') (sg_id v')
                        (protocol v') (port v') (cidr v') (description v'))"
      have "reads_only (t0 @ [Ec2DescribeSecurityGroups (region v') (sg_id v')])"
        using ro by (simp add: reads_only_def)
      moreover have "t = (t0 @ [Ec2DescribeSecurityGroups (region v') (sg_id v')])
                         @ [Ec2AuthorizeSecurityGroupIngress (region v') (sg_id v') (protocol v')
                              (port v') (cidr v') (description v')]"
        using a eq by simp
      ultimately show ?thesis using a eq by blast
    qed
  qed
qed

lemma whitelist_ip_calls:
  assumes "whitelist_ip w e s args = (x, t, s')"
  shows "(reads_only t \<and> s' = s) \<or>
         (\<exists>t0 r g p pt c d.
            t = t0 @ [Ec2AuthorizeSecurityGroupIngress r g p pt c d] \<and> reads_only t0
            \<and> s' = snd (ec2_authorize_security_group_ingress w s r g p pt c d)
            \<and> exit_code x = fst (ec2_authorize_security_group_ingress w s r g p pt c d))"
proof (cases "parse_args args initial_vars")
  case (Inl y)
  with assms show ?thesis by (simp add: whitelist_ip_def reads_only_def)
next
  case (Inr v)
  with assms have "run w e s v = (x, t, s')" by (simp add: whitelist_ip_def)
  then show ?thesis by (rule run_calls)
qed

lemma filter_reads_only: "reads_only t \<Longrightarrow> filter is_mutation t = []"
  by (induction t) (auto simp: reads_only_def)

text \<open>
  Claim C9. In every run, with any command line, environment and cloud, the commands
  before the last one only read, and at most one command is a mutation: the
  authorization, which is then the last command of the run. A run without it, hence every
  run that ends before the authorization, leaves the cloud as it was. When the
  authorization is run, the exit status of the run is the status of that one command
  (nothing is tried again) and the cloud is as that command left it.
\<close>

theorem mutation_last_and_once:
  assumes "whitelist_ip w e s args = (x, t, s')"
  shows "length (filter is_mutation t) \<le> 1 \<and> reads_only (butlast t) \<and>
         (reads_only t \<longrightarrow> s' = s) \<and>
         (\<not> reads_only t \<longrightarrow>
            (\<exists>r g p pt c d.
               last t = Ec2AuthorizeSecurityGroupIngress r g p pt c d
               \<and> exit_code x = fst (ec2_authorize_security_group_ingress w s r g p pt c d)
               \<and> s' = snd (ec2_authorize_security_group_ingress w s r g p pt c d)))"
  using whitelist_ip_calls [OF assms]
proof
  assume a: "reads_only t \<and> s' = s"
  then have "reads_only (butlast t)"
    by (auto simp: reads_only_def list_all_iff dest: in_set_butlastD)
  with a show ?thesis by (simp add: filter_reads_only)
next
  assume "\<exists>t0 r g p pt c d.
            t = t0 @ [Ec2AuthorizeSecurityGroupIngress r g p pt c d] \<and> reads_only t0
            \<and> s' = snd (ec2_authorize_security_group_ingress w s r g p pt c d)
            \<and> exit_code x = fst (ec2_authorize_security_group_ingress w s r g p pt c d)"
  then obtain t0 r g p pt c d where
    t: "t = t0 @ [Ec2AuthorizeSecurityGroupIngress r g p pt c d]" and ro: "reads_only t0"
    and st: "s' = snd (ec2_authorize_security_group_ingress w s r g p pt c d)"
      "exit_code x = fst (ec2_authorize_security_group_ingress w s r g p pt c d)"
    by blast
  have "\<not> reads_only t" using t by (simp add: reads_only_def)
  moreover have "length (filter is_mutation t) \<le> 1"
    using t ro by (simp add: filter_reads_only)
  moreover have "reads_only (butlast t)" using t ro by (simp add: butlast_append)
  moreover have "last t = Ec2AuthorizeSecurityGroupIngress r g p pt c d" using t by simp
  ultimately show ?thesis using st by blast
qed

lemma demo_full_run:
  "whitelist_ip demo_world demo_env [ssh_rule] [''--url'', ''http://43.216.215.179:8080/'']
   = (Exit 0 [''Added 203.0.113.10/32 to sg-0a1b on tcp/8080 (region ap-southeast-5).''] [],
      [Ec2DescribeRegions,
       Ec2DescribeNetworkInterfaces ''ap-southeast-5'' ''43.216.215.179'',
       Ec2DescribeNetworkInterfaces ''us-east-1'' ''43.216.215.179'',
       CurlCheckip,
       Ec2DescribeNetworkInterfaces ''ap-southeast-5'' ''43.216.215.179'',
       Ec2DescribeSecurityGroups ''ap-southeast-5'' ''sg-0a1b'',
       Ec2AuthorizeSecurityGroupIngress ''ap-southeast-5'' ''sg-0a1b'' ''tcp'' ''8080''
         ''203.0.113.10/32'' ''codex-whitelist''],
      [ssh_rule,
       \<lparr>IpProtocol = ''tcp'', FromPort = Some 8080, ToPort = Some 8080,
        IpRanges = [\<lparr>CidrIp = ''203.0.113.10/32'', Description = ''codex-whitelist''\<rparr>]\<rparr>])"
  by (simp add: whitelist_ip_def run_def resolve_def parse_url_def resolve_region_def
      infer_region_def resolve_cidr_def locate_sg_by_ip_def locate_sg_by_ecs_def resolve_port_def
      rule_authorizer_def cmd_subst_def aws_text_def pipe_def ret_def exit_with_def env_region_def
      takes_value_def set_option_def initial_vars_def url_host_def url_port_def url_hostport_def
      strip_scheme_def before_first_def after_last_def is_dotted_quad_def is_digit_def
      read_array_def first_line_def strip_trailing_newlines_def tr_delete_space_def is_space_def
      is_blank_def NL_def TAB_def format_list_def format_opt_list_def format_opt_list_list_def
      first_interface_groups_def existing_query_def matching_ranges_def rule_matches_def
      port_is_def demo_world_def demo_env_def demo_authorize_def read_port_def ssh_rule_def
      json_literal_8080 Let_def)

theorem mutation_last_and_once_witness:
  "snd (snd (whitelist_ip demo_world demo_env [web_rule] [''--port'', ''8080''])) = [web_rule] \<and>
   reads_only (butlast (fst (snd (whitelist_ip demo_world demo_env [ssh_rule]
                                     [''--url'', ''http://43.216.215.179:8080/''])))) \<and>
   exit_code (fst (whitelist_ip demo_world demo_env [ssh_rule] [''--url'', ''http://43.216.215.179:8080/'']))
     = fst (demo_authorize [ssh_rule] ''ap-southeast-5'' ''sg-0a1b'' ''tcp'' ''8080''
              ''203.0.113.10/32'' ''codex-whitelist'')"
proof -
  have ro: "reads_only [AwsConfigureGetRegion]" by (simp add: reads_only_def)
  from mutation_last_and_once [OF demo_run_no_region] ro
  have a: "snd (snd (whitelist_ip demo_world demo_env [web_rule] [''--port'', ''8080''])) = [web_rule]"
    by (simp add: demo_run_no_region)
  have w: "ec2_authorize_security_group_ingress demo_world = demo_authorize"
    by (simp add: demo_world_def)
  have "\<not> reads_only (fst (snd (whitelist_ip demo_world demo_env [ssh_rule]
                                     [''--url'', ''http://43.216.215.179:8080/''])))"
    by (simp add: demo_full_run reads_only_def)
  with mutation_last_and_once [OF demo_full_run] w
  have b: "reads_only (butlast (fst (snd (whitelist_ip demo_world demo_env [ssh_rule]
                                     [''--url'', ''http://43.216.215.179:8080/''])))) \<and>
   exit_code (fst (whitelist_ip demo_world demo_env [ssh_rule] [''--url'', ''http://43.216.215.179:8080/'']))
     = fst (demo_authorize [ssh_rule] ''ap-southeast-5'' ''sg-0a1b'' ''tcp'' ''8080''
              ''203.0.113.10/32'' ''codex-whitelist'')"
    by (simp add: demo_full_run)
  from a b show ?thesis by simp
qed

end
